theory Spec2Isabelle
  imports Complex_Main
begin

section \<open>Data model of \<open>sleepecg.io.sleep_readers\<close>\<close>

text \<open>
  The enumerations and dataclasses of the module. A numpy array is either zero-dimensional
  (what \<open>np.loadtxt\<close> returns for a file with one data row, and what \<open>np.load\<close> returns for a
  saved scalar) or one-dimensional. Python floats are modelled by the real number they
  stand for; rounding of the binary representation is outside the model.
\<close>

datatype SleepStage = UNDEFINED | N3 | N2 | N1 | REM | WAKE

datatype Gender = FEMALE | MALE

record SubjectData =
  gender :: "Gender option"
  age :: "int option"
  weight :: "real option"

datatype ndarray = Scalar real | Vector "real list"

record pytime =
  hour :: nat
  minute :: nat
  second :: nat

record SleepRecord =
  sleep_stages :: "SleepStage list"
  sleep_stage_duration :: int
  id_str :: string
  recording_start_time :: pytime
  heartbeat_times :: ndarray
  subject_data :: SubjectData
  activity_counts :: "ndarray option"

record ParseNsrrXmlResult =
  parsed_sleep_stages :: "SleepStage list"
  parsed_sleep_stage_duration :: int
  parsed_recording_start_time :: pytime
  parsed_recording_duration :: real

text \<open>Every exception the modelled code can raise is a value.\<close>

datatype error =
  RuntimeError | ValueError | KeyError | IndexError | TypeError | ZeroDivisionError
  | UnboundLocalError | FileNotFoundError | AxisError | OverflowError | ParseError
  | DownloadError | StopIteration

section \<open>Python built-ins used by the module\<close>

definition is_space :: "char \<Rightarrow> bool" where
  "is_space c = (c \<in> set [CHR '' '', CHR 0x09, CHR 0x0A, CHR 0x0B, CHR 0x0C, CHR 0x0D,
                            CHR 0x1C, CHR 0x1D, CHR 0x1E, CHR 0x1F])"

definition is_digit :: "char \<Rightarrow> bool" where
  "is_digit c = (c \<in> set ''0123456789'')"

definition digit_val :: "char \<Rightarrow> nat" where
  "digit_val c = of_char c - 48"

text \<open>\<open>str.strip()\<close>.\<close>

definition py_strip :: "string \<Rightarrow> string" where
  "py_strip s = rev (dropWhile is_space (rev (dropWhile is_space s)))"

text \<open>\<open>str.split()\<close> without a separator: maximal runs of non-whitespace.\<close>

fun split_ws :: "string \<Rightarrow> string \<Rightarrow> string list" where
  "split_ws cur [] = (if cur = [] then [] else [cur])"
| "split_ws cur (c # cs) =
     (if is_space c then (if cur = [] then split_ws [] cs else cur # split_ws [] cs)
      else split_ws (cur @ [c]) cs)"

definition py_split :: "string \<Rightarrow> string list" where
  "py_split s = split_ws [] s"

text \<open>\<open>str.split(sep)\<close> with a one-character separator: empty fields are kept.\<close>

fun split_on :: "char \<Rightarrow> string \<Rightarrow> string \<Rightarrow> string list" where
  "split_on sep cur [] = [cur]"
| "split_on sep cur (c # cs) =
     (if c = sep then cur # split_on sep [] cs else split_on sep (cur @ [c]) cs)"

definition py_split_sep :: "char \<Rightarrow> string \<Rightarrow> string list" where
  "py_split_sep sep s = split_on sep [] s"

text \<open>
  \<open>int(str)\<close>: surrounding whitespace, an optional sign, decimal digits with single
  underscores between them. Anything else is a \<open>ValueError\<close>.
\<close>

fun py_digits :: "nat \<Rightarrow> string \<Rightarrow> nat option" where
  "py_digits acc [] = Some acc"
| "py_digits acc (c # cs) =
     (if is_digit c then py_digits (10 * acc + digit_val c) cs
      else if c = CHR ''_'' \<and> cs \<noteq> [] \<and> is_digit (hd cs) then py_digits acc cs
      else None)"

definition py_nat :: "string \<Rightarrow> nat option" where
  "py_nat s = (case s of [] \<Rightarrow> None | c # cs \<Rightarrow> if is_digit c then py_digits 0 s else None)"

definition py_signed :: "string \<Rightarrow> (bool \<times> string)" where
  "py_signed s =
     (case s of
        [] \<Rightarrow> (False, [])
      | c # cs \<Rightarrow> if c = CHR ''-'' then (True, cs) else if c = CHR ''+'' then (False, cs)
                 else (False, s))"

definition py_int :: "string \<Rightarrow> error + int" where
  "py_int s =
     (let (neg, body) = py_signed (py_strip s)
      in case py_nat body of
           None \<Rightarrow> Inl ValueError
         | Some n \<Rightarrow> Inr (if neg then - int n else int n))"

text \<open>
  \<open>float(str)\<close> on decimal literals \<open>[sign] digits [. [digits]]\<close> and \<open>[sign] . digits\<close>.
  The value is the exact decimal. Exponents, \<open>inf\<close> and \<open>nan\<close> are not decimal literals of
  this shape and are rejected here.
\<close>

definition py_fraction :: "string \<Rightarrow> real option" where
  "py_fraction s =
     (if s = [] then Some 0
      else case py_nat s of
             None \<Rightarrow> None
           | Some n \<Rightarrow> Some (real n / 10 ^ length (filter is_digit s)))"

definition py_unsigned_float :: "string \<Rightarrow> real option" where
  "py_unsigned_float s =
     (case py_split_sep (CHR ''.'') s of
        [i] \<Rightarrow> map_option real (py_nat i)
      | [i, f] \<Rightarrow>
          (if i = [] then (if f = [] then None else py_fraction f)
           else case (py_nat i, py_fraction f) of
                  (Some a, Some b) \<Rightarrow> Some (real a + b)
                | _ \<Rightarrow> None)
      | _ \<Rightarrow> None)"

definition py_float :: "string \<Rightarrow> error + real" where
  "py_float s =
     (let (neg, body) = py_signed (py_strip s)
      in case py_unsigned_float body of
           None \<Rightarrow> Inl ValueError
         | Some x \<Rightarrow> Inr (if neg then - x else x))"

text \<open>\<open>int(x)\<close> on a float truncates towards zero.\<close>

definition int_of_float :: "real \<Rightarrow> int" where
  "int_of_float x = (if 0 \<le> x then \<lfloor>x\<rfloor> else \<lceil>x\<rceil>)"

text \<open>
  \<open>datetime.strptime(s, "%H.%M.%S").time()\<close>: three fields of one or two digits, separated
  by dots, within the ranges of a time of day.
\<close>

definition two_digits :: "string \<Rightarrow> nat option" where
  "two_digits s =
     (if (length s = 1 \<or> length s = 2) \<and> list_all is_digit s then py_digits 0 s else None)"

definition strptime_HMS :: "string \<Rightarrow> error + pytime" where
  "strptime_HMS s =
     (case map two_digits (py_split_sep (CHR ''.'') s) of
        [Some h, Some m, Some sec] \<Rightarrow>
          if h \<le> 23 \<and> m \<le> 59 \<and> sec \<le> 59
          then Inr \<lparr>hour = h, minute = m, second = sec\<rparr>
          else Inl ValueError
      | _ \<Rightarrow> Inl ValueError)"

section \<open>The annotation parser\<close>

text \<open>
  An \<open>ElementTree\<close> element: tag, text (\<open>None\<close> when the element has no text) and children
  in document order.
\<close>

datatype xml = Element (tag: string) (text_of: "string option") (children: "xml list")

text \<open>\<open>elem.find(tag)\<close>: the first direct child with that tag.\<close>

definition find_child :: "xml \<Rightarrow> string \<Rightarrow> xml option" where
  "find_child e t = List.find (\<lambda>c. tag c = t) (children e)"

text \<open>
  \<open>elem.findtext(tag)\<close> is \<open>None\<close> when no child matches, and the empty string when the
  child has no text; \<open>elem.findtext(tag, "")\<close> replaces the \<open>None\<close> by the default.
\<close>

definition findtext :: "xml \<Rightarrow> string \<Rightarrow> string option" where
  "findtext e t =
     (case find_child e t of
        None \<Rightarrow> None
      | Some c \<Rightarrow> Some (case text_of c of None \<Rightarrow> [] | Some s \<Rightarrow> s))"

definition findtext_default :: "xml \<Rightarrow> string \<Rightarrow> string \<Rightarrow> string" where
  "findtext_default e t d = (case findtext e t of None \<Rightarrow> d | Some s \<Rightarrow> s)"

text \<open>\<open>elem.find(".//tag")\<close>: the first proper descendant with that tag, in document order.\<close>

fun find_desc :: "string \<Rightarrow> xml \<Rightarrow> xml option"
  and find_desc_list :: "string \<Rightarrow> xml list \<Rightarrow> xml option" where
  "find_desc t (Element _ _ cs) = find_desc_list t cs"
| "find_desc_list t [] = None"
| "find_desc_list t (c # cs) =
     (if tag c = t then Some c
      else case find_desc t c of
             Some e \<Rightarrow> Some e
           | None \<Rightarrow> find_desc_list t cs)"

definition findtext_desc_default :: "xml \<Rightarrow> string \<Rightarrow> string \<Rightarrow> string" where
  "findtext_desc_default e t d =
     (case find_desc t e of
        None \<Rightarrow> d
      | Some c \<Rightarrow> (case text_of c of None \<Rightarrow> [] | Some s \<Rightarrow> s))"

definition STAGE_MAPPING :: "string \<Rightarrow> SleepStage option" where
  "STAGE_MAPPING =
     [''Wake|0'' \<mapsto> WAKE,
      ''Stage 1 sleep|1'' \<mapsto> N1,
      ''Stage 2 sleep|2'' \<mapsto> N2,
      ''Stage 3 sleep|3'' \<mapsto> N3,
      ''Stage 4 sleep|4'' \<mapsto> N3,
      ''REM sleep|5'' \<mapsto> REM,
      ''Unscored|9'' \<mapsto> UNDEFINED]"

text \<open>
  Lines 156 to 159: the start time of a "Recording Start Time" event is the second
  whitespace-separated token of its \<open>ClockTime\<close>.
\<close>

definition event_start_time :: "xml \<Rightarrow> error + pytime" where
  "event_start_time event =
     (case py_split (findtext_default event ''ClockTime'' []) of
        _ # tok # _ \<Rightarrow> strptime_HMS tok
      | _ \<Rightarrow> Inl IndexError)"

text \<open>
  Lines 162 to 164: the epochs one staging event contributes. \<open>[stage] * n\<close> is empty
  for \<open>n \<le> 0\<close>.
\<close>

definition event_epochs :: "int \<Rightarrow> xml \<Rightarrow> error + SleepStage list" where
  "event_epochs epoch_length event =
     (case py_float (findtext_default event ''Duration'' []) of
        Inl e \<Rightarrow> Inl e
      | Inr d \<Rightarrow>
          (let epoch_duration = int_of_float d
           in case STAGE_MAPPING (findtext_default event ''EventConcept'' []) of
                None \<Rightarrow> Inl KeyError
              | Some stage \<Rightarrow>
                  if epoch_length = 0 then Inl ZeroDivisionError
                  else Inr (replicate
                         (nat (int_of_float (real_of_int epoch_duration / real_of_int epoch_length)))
                         stage)))"

text \<open>The loop of lines 155 to 164 over the events, with its two accumulators.\<close>

fun scan_events ::
  "int \<Rightarrow> xml list \<Rightarrow> pytime option \<Rightarrow> SleepStage list
     \<Rightarrow> error + (pytime option \<times> SleepStage list)" where
  "scan_events epoch_length [] start_time annot_stages = Inr (start_time, annot_stages)"
| "scan_events epoch_length (event # events) start_time annot_stages =
     (case (if findtext event ''EventConcept'' = Some ''Recording Start Time''
            then map_sum id Some (event_start_time event)
            else Inr start_time) of
        Inl e \<Rightarrow> Inl e
      | Inr start_time' \<Rightarrow>
          if findtext event ''EventType'' = Some ''Stages|Stages''
          then (case event_epochs epoch_length event of
                  Inl e \<Rightarrow> Inl e
                | Inr new \<Rightarrow> scan_events epoch_length events start_time' (annot_stages @ new))
          else scan_events epoch_length events start_time' annot_stages)"

text \<open>\<open>_parse_nsrr_xml\<close>, applied to the root element of the parsed file.\<close>

definition parse_nsrr_xml :: "xml \<Rightarrow> error + ParseNsrrXmlResult" where
  "parse_nsrr_xml root_el =
     (case findtext root_el ''EpochLength'' of
        None \<Rightarrow> Inl RuntimeError
      | Some epoch_length_str \<Rightarrow>
     (case py_int epoch_length_str of
        Inl e \<Rightarrow> Inl e
      | Inr epoch_length \<Rightarrow>
     (case find_desc ''ScoredEvent'' root_el of
        None \<Rightarrow> Inl RuntimeError
      | Some scored_event \<Rightarrow>
     (case py_float (findtext_desc_default scored_event ''Duration'' []) of
        Inl e \<Rightarrow> Inl e
      | Inr recording_duration \<Rightarrow>
     (case filter (\<lambda>c. tag c = ''ScoredEvents'') (children root_el) of
        [] \<Rightarrow> Inl IndexError
      | scored_events # _ \<Rightarrow>
     (case scan_events epoch_length (children scored_events) None [] of
        Inl e \<Rightarrow> Inl e
      | Inr (None, _) \<Rightarrow> Inl RuntimeError
      | Inr (Some start_time, annot_stages) \<Rightarrow>
          Inr \<lparr>parsed_sleep_stages = annot_stages,
               parsed_sleep_stage_duration = epoch_length,
               parsed_recording_start_time = start_time,
               parsed_recording_duration = recording_duration\<rparr>))))))"

section \<open>Subject metadata\<close>

text \<open>
  \<open>read_mesa\<close>, lines 344 to 349: the rows of the subject table are integer triples
  \<open>(mesaid, gender, age)\<close>, and the gender is looked up with \<open>GENDER_MAPPING[gender]\<close>.
\<close>

definition GENDER_MAPPING_mesa :: "int \<Rightarrow> Gender option" where
  "GENDER_MAPPING_mesa = [0 \<mapsto> FEMALE, 1 \<mapsto> MALE]"

definition digit_char :: "nat \<Rightarrow> char" where
  "digit_char d = ''0123456789'' ! (d mod 10)"

fun nat_digits :: "nat \<Rightarrow> string" where
  "nat_digits n = (if n < 10 then [digit_char n] else nat_digits (n div 10) @ [digit_char (n mod 10)])"

declare nat_digits.simps [simp del]

definition zero_pad :: "nat \<Rightarrow> string \<Rightarrow> string" where
  "zero_pad w s = replicate (w - length s) (CHR ''0'') @ s"

text \<open>The format specification \<open>{mesaid:04}\<close>: the sign counts towards the width.\<close>

definition format_04 :: "int \<Rightarrow> string" where
  "format_04 i =
     (if i < 0 then CHR ''-'' # zero_pad 3 (nat_digits (nat (- i)))
      else zero_pad 4 (nat_digits (nat i)))"

definition mesa_subject_row :: "int \<times> int \<times> int \<Rightarrow> error + (string \<times> SubjectData)" where
  "mesa_subject_row row =
     (case row of (mesaid, gender_code, age_years) \<Rightarrow>
        (case GENDER_MAPPING_mesa gender_code of
           None \<Rightarrow> Inl KeyError
         | Some g \<Rightarrow>
             Inr (''mesa-sleep-'' @ format_04 mesaid,
                  \<lparr>gender = Some g, age = Some age_years, weight = None\<rparr>)))"

text \<open>
  The loops that fill the \<open>subject_data\<close> dictionary: a later row with the same key
  replaces the earlier one, and the first row that raises ends the loop.
\<close>

fun load_subject_rows ::
  "('r \<Rightarrow> error + (string \<times> SubjectData)) \<Rightarrow> 'r list \<Rightarrow> (string \<rightharpoonup> SubjectData)
     \<Rightarrow> error + (string \<rightharpoonup> SubjectData)" where
  "load_subject_rows f [] acc = Inr acc"
| "load_subject_rows f (row # rows) acc =
     (case f row of
        Inl e \<Rightarrow> Inl e
      | Inr (k, v) \<Rightarrow> load_subject_rows f rows (acc(k \<mapsto> v)))"

text \<open>
  \<open>read_shhs\<close>, lines 740 to 757. A row of \<open>csv.DictReader\<close> maps each column of the header
  to a string, or to \<open>None\<close> when the line has fewer fields than the header.
\<close>

type_synonym csv_row = "string \<Rightarrow> string option option"

definition GENDER_MAPPING_shhs :: "string \<Rightarrow> Gender option" where
  "GENDER_MAPPING_shhs = [''2'' \<mapsto> FEMALE, ''1'' \<mapsto> MALE]"

definition row_get :: "csv_row \<Rightarrow> string \<Rightarrow> error + string option" where
  "row_get row k = (case row k of None \<Rightarrow> Inl KeyError | Some v \<Rightarrow> Inr v)"

text \<open>\<open>GENDER_MAPPING.get(row["gender"])\<close>.\<close>

definition shhs_gender :: "csv_row \<Rightarrow> error + Gender option" where
  "shhs_gender row =
     (case row_get row ''gender'' of
        Inl e \<Rightarrow> Inl e
      | Inr None \<Rightarrow> Inr None
      | Inr (Some code) \<Rightarrow> Inr (GENDER_MAPPING_shhs code))"

text \<open>\<open>int(row[k]) if row[k] != "" else None\<close>.\<close>

definition shhs_age :: "csv_row \<Rightarrow> string \<Rightarrow> error + int option" where
  "shhs_age row k =
     (case row_get row k of
        Inl e \<Rightarrow> Inl e
      | Inr None \<Rightarrow> Inl TypeError
      | Inr (Some v) \<Rightarrow> if v \<noteq> [] then map_sum (\<lambda>e. e) Some (py_int v) else Inr None)"

text \<open>\<open>float(row["weight"]) if row["weight"] else None\<close>.\<close>

definition shhs_weight :: "csv_row \<Rightarrow> error + real option" where
  "shhs_weight row =
     (case row_get row ''weight'' of
        Inl e \<Rightarrow> Inl e
      | Inr None \<Rightarrow> Inr None
      | Inr (Some v) \<Rightarrow> if v \<noteq> [] then map_sum (\<lambda>e. e) Some (py_float v) else Inr None)"

definition str_of_cell :: "string option \<Rightarrow> string" where
  "str_of_cell v = (case v of None \<Rightarrow> ''None'' | Some s \<Rightarrow> s)"

definition shhs1_subject_row :: "csv_row \<Rightarrow> error + (string \<times> SubjectData)" where
  "shhs1_subject_row row =
     (case row_get row ''nsrrid'' of
        Inl e \<Rightarrow> Inl e
      | Inr nsrrid \<Rightarrow>
     (case shhs_gender row of
        Inl e \<Rightarrow> Inl e
      | Inr g \<Rightarrow>
     (case shhs_age row ''age_s1'' of
        Inl e \<Rightarrow> Inl e
      | Inr a \<Rightarrow>
     (case shhs_weight row of
        Inl e \<Rightarrow> Inl e
      | Inr w \<Rightarrow>
          Inr (''shhs1-'' @ str_of_cell nsrrid, \<lparr>gender = g, age = a, weight = w\<rparr>)))))"

definition shhs2_subject_row :: "csv_row \<Rightarrow> error + (string \<times> SubjectData)" where
  "shhs2_subject_row row =
     (case row_get row ''nsrrid'' of
        Inl e \<Rightarrow> Inl e
      | Inr nsrrid \<Rightarrow>
     (case shhs_gender row of
        Inl e \<Rightarrow> Inl e
      | Inr g \<Rightarrow>
     (case shhs_age row ''age_s2'' of
        Inl e \<Rightarrow> Inl e
      | Inr a \<Rightarrow>
          Inr (''shhs2-'' @ str_of_cell nsrrid, \<lparr>gender = g, age = a, weight = None\<rparr>))))"

text \<open>
  \<open>read_slpdb\<close>, lines 607 to 612: the last header line holds
  \<open><age> <gender> <weight> <unspecified>\<close>; unpacking needs exactly four tokens.
\<close>

definition slpdb_number :: "string \<Rightarrow> error + int option" where
  "slpdb_number v = (if v = ''x'' then Inr None else map_sum (\<lambda>e. e) Some (py_int v))"

definition slpdb_subject_data :: "string list \<Rightarrow> error + SubjectData" where
  "slpdb_subject_data comments =
     (case comments of
        [] \<Rightarrow> Inl IndexError
      | line # _ \<Rightarrow>
     (case py_split line of
        [age_str, _, weight_str, _] \<Rightarrow>
          (case slpdb_number age_str of
             Inl e \<Rightarrow> Inl e
           | Inr a \<Rightarrow>
          (case slpdb_number weight_str of
             Inl e \<Rightarrow> Inl e
           | Inr w \<Rightarrow> Inr \<lparr>gender = Some MALE, age = a, weight = map_option real_of_int w\<rparr>))
      | _ \<Rightarrow> Inl ValueError))"

section \<open>Activity alignment\<close>

text \<open>Python slices \<open>xs[i:j]\<close>, \<open>xs[i:]\<close> and \<open>xs[:j]\<close>: indices are clamped, negative ones count
  from the end.\<close>

definition slice_index :: "nat \<Rightarrow> int \<Rightarrow> nat" where
  "slice_index n i = (if i < 0 then nat (max 0 (int n + i)) else min n (nat i))"

definition py_slice :: "'a list \<Rightarrow> int \<Rightarrow> int \<Rightarrow> 'a list" where
  "py_slice xs i j =
     (let a = slice_index (length xs) i; b = slice_index (length xs) j
      in take (b - a) (drop a xs))"

definition py_slice_from :: "'a list \<Rightarrow> int \<Rightarrow> 'a list" where
  "py_slice_from xs i = drop (slice_index (length xs) i) xs"

definition py_slice_to :: "'a list \<Rightarrow> int \<Rightarrow> 'a list" where
  "py_slice_to xs j = take (slice_index (length xs) j) xs"

text \<open>
  A \<open>datetime\<close> is the number of microseconds since the start of day 0 of the proleptic
  calendar; days 1 to 3652059 are the years 1 to 9999. A \<open>timedelta\<close> is a number of
  microseconds.
\<close>

definition round_half_even :: "real \<Rightarrow> int" where
  "round_half_even x =
     (let f = \<lfloor>x\<rfloor>; r = x - of_int f
      in if r < 1 / 2 then f else if 1 / 2 < r then f + 1 else if even f then f else f + 1)"

definition day_us :: int where
  "day_us = 86400000000"

definition timedelta_seconds :: "real \<Rightarrow> error + int" where
  "timedelta_seconds x =
     (let us = round_half_even (x * 1000000)
      in if - 999999999 \<le> us div day_us \<and> us div day_us \<le> 999999999 then Inr us
         else Inl OverflowError)"

definition datetime_combine :: "int \<Rightarrow> pytime \<Rightarrow> int" where
  "datetime_combine day t =
     (day * 86400 + int (hour t * 3600 + minute t * 60 + second t)) * 1000000"

definition datetime_add :: "int \<Rightarrow> int \<Rightarrow> error + int" where
  "datetime_add dt delta =
     (let r = dt + delta
      in if 1 \<le> r div day_us \<and> r div day_us \<le> 3652059 then Inr r else Inl OverflowError)"

definition datetime_second :: "int \<Rightarrow> int" where
  "datetime_second dt = (dt div 1000000) mod 60"

text \<open>Lines 458 to 463.\<close>

definition rounding_seconds :: "int \<Rightarrow> int" where
  "rounding_seconds recording_end_time_seconds =
     (if recording_end_time_seconds mod 30 \<ge> 15
      then 30 - recording_end_time_seconds mod 30
      else - (recording_end_time_seconds mod 30))"

definition format_02 :: "nat \<Rightarrow> string" where
  "format_02 n = [digit_char (n div 10 mod 10), digit_char (n mod 10)]"

text \<open>\<open>strftime("%H:%M:%S").lstrip("0")\<close>.\<close>

definition end_time_str :: "int \<Rightarrow> string" where
  "end_time_str dt =
     (let s = nat ((dt div 1000000) mod 86400)
      in dropWhile (\<lambda>c. c = CHR ''0'')
           (format_02 (s div 3600) @ '':'' @ format_02 (s div 60 mod 60) @ '':''
              @ format_02 (s mod 60)))"

text \<open>Lines 452 to 468: the label of the rounded end of the recording.\<close>

definition recording_end_time_str :: "int \<Rightarrow> pytime \<Rightarrow> real \<Rightarrow> error + string" where
  "recording_end_time_str today start duration =
     (case timedelta_seconds duration of
        Inl e \<Rightarrow> Inl e
      | Inr delta \<Rightarrow>
     (case datetime_add (datetime_combine today start) delta of
        Inl e \<Rightarrow> Inl e
      | Inr recording_end_time \<Rightarrow>
     (case datetime_add recording_end_time
             (rounding_seconds (datetime_second recording_end_time) * 1000000) of
        Inl e \<Rightarrow> Inl e
      | Inr rounded \<Rightarrow> Inr (end_time_str rounded))))"

text \<open>\<open>dict(zip(header, row))\<close>: the last of several equal column names wins.\<close>

definition dict_zip :: "string list \<Rightarrow> string list \<Rightarrow> (string \<rightharpoonup> string)" where
  "dict_zip header row = map_of (rev (zip header row))"

text \<open>
  Lines 472 to 481: the \<open>for\<close> loop with its \<open>else\<close>. \<open>None\<close> is the \<open>else\<close> branch (no row
  matches); otherwise the result of \<open>int(item["line"])\<close> at the first match.
\<close>

fun find_end_line :: "(string \<rightharpoonup> string) list \<Rightarrow> string \<Rightarrow> (error + int) option" where
  "find_end_line [] label = None"
| "find_end_line (item # items) label =
     (if item ''linetime'' = Some label
      then Some (case item ''line'' of None \<Rightarrow> Inl KeyError | Some l \<Rightarrow> py_int l)
      else find_end_line items label)"

text \<open>Lines 483 to 485: \<open>[item["activity"] for item in ...]\<close>.\<close>

fun activity_column :: "(string \<rightharpoonup> string) list \<Rightarrow> error + string list" where
  "activity_column [] = Inr []"
| "activity_column (item # items) =
     (case item ''activity'' of
        None \<Rightarrow> Inl KeyError
      | Some a \<Rightarrow> map_sum (\<lambda>e. e) ((#) a) (activity_column items))"

text \<open>
  Lines 489 to 496: the length reconciliation. \<open>None\<close> is the skip of line 492.
\<close>

definition reconcile_length :: "'a list \<Rightarrow> nat \<Rightarrow> 'a list option" where
  "reconcile_length candidate n_stages =
     (let diff = int (length candidate) - int n_stages
      in if \<bar>diff\<bar> > 2 then None
         else if diff > 0 then Some (py_slice_to candidate (- diff))
         else if diff < 0 then Some (candidate @ py_slice_from candidate diff)
         else Some candidate)"

text \<open>Lines 498 and 499: blank cells become \<open>"0"\<close>, then every cell is converted to a float.\<close>

fun astype_float :: "string list \<Rightarrow> error + real list" where
  "astype_float [] = Inr []"
| "astype_float (c # cs) =
     (case py_float (if c = [] then ''0'' else c) of
        Inl e \<Rightarrow> Inl e
      | Inr x \<Rightarrow> map_sum (\<lambda>e. e) ((#) x) (astype_float cs))"

section \<open>Files and collaborators\<close>

text \<open>
  The data directory is a map from paths (relative to the dataset directory) to file
  contents; \<open>remote\<close> is what the NSRR server offers under the same relative names. A
  sidecar of heartbeat annotations is represented by the array that \<open>np.loadtxt\<close> returns
  for its \<open>seconds\<close> column, an \<open>.npy\<close> file by the array stored in it, an \<open>.edf\<close> file by its
  signals (label, samples, sampling frequency), an annotation file by its root element,
  an actigraphy file by its header and rows.
\<close>

datatype file_content =
  RpointsCsv ndarray
  | NpyFile ndarray
  | EdfFile "(string \<times> real list \<times> real) list"
  | XmlFile xml
  | ActivityCsv "string list" "string list list"
  | OtherFile

record world =
  files :: "string \<Rightarrow> file_content option"
  remote :: "string \<Rightarrow> file_content option"

text \<open>
  Modelled from the spec: \<open>_download_nsrr_file\<close> is defined in \<open>sleepecg.io.nsrr\<close>, outside
  this module. "Given a relative path and expected checksum, ensures the file exists
  locally with matching content, or fails with a network/integrity error."
\<close>

definition download_nsrr_file :: "world \<Rightarrow> string \<Rightarrow> error + world" where
  "download_nsrr_file w filename =
     (case remote w filename of
        None \<Rightarrow> Inl DownloadError
      | Some f \<Rightarrow> Inr (w\<lparr>files := (files w)(filename \<mapsto> f)\<rparr>))"

text \<open>
  \<open>checksums[filename]\<close> is evaluated before the call, so a name that the listing did not
  return is a \<open>KeyError\<close>.
\<close>

definition download_listed :: "string list \<Rightarrow> world \<Rightarrow> string \<Rightarrow> error + world" where
  "download_listed checksums w filename =
     (if filename \<in> set checksums then download_nsrr_file w filename else Inl KeyError)"

definition np_loadtxt :: "world \<Rightarrow> string \<Rightarrow> error + ndarray" where
  "np_loadtxt w path =
     (case files w path of
        None \<Rightarrow> Inl FileNotFoundError
      | Some (RpointsCsv a) \<Rightarrow> Inr a
      | Some _ \<Rightarrow> Inl ValueError)"

definition np_load :: "world \<Rightarrow> string \<Rightarrow> error + ndarray" where
  "np_load w path =
     (case files w path of
        None \<Rightarrow> Inl FileNotFoundError
      | Some (NpyFile a) \<Rightarrow> Inr a
      | Some _ \<Rightarrow> Inl ValueError)"

definition np_save :: "world \<Rightarrow> string \<Rightarrow> ndarray \<Rightarrow> world" where
  "np_save w path a = w\<lparr>files := (files w)(path \<mapsto> NpyFile a)\<rparr>"

text \<open>\<open>ndarray.sort()\<close>: a zero-dimensional array has no axis to sort along.\<close>

definition np_sort :: "ndarray \<Rightarrow> error + ndarray" where
  "np_sort a = (case a of Scalar _ \<Rightarrow> Inl AxisError | Vector xs \<Rightarrow> Inr (Vector (sort xs)))"

text \<open>\<open>read_edf(path).get_signal(label)\<close>, reduced to the samples and the sampling frequency.\<close>

definition read_edf_signal :: "world \<Rightarrow> string \<Rightarrow> string \<Rightarrow> error + (real list \<times> real)" where
  "read_edf_signal w path label =
     (case files w path of
        None \<Rightarrow> Inl FileNotFoundError
      | Some (EdfFile signals) \<Rightarrow>
          (case map_of signals label of None \<Rightarrow> Inl ValueError | Some sig \<Rightarrow> Inr sig)
      | Some _ \<Rightarrow> Inl ValueError)"

definition ElementTree_parse :: "world \<Rightarrow> string \<Rightarrow> error + xml" where
  "ElementTree_parse w path =
     (case files w path of
        None \<Rightarrow> Inl FileNotFoundError
      | Some (XmlFile x) \<Rightarrow> Inr x
      | Some _ \<Rightarrow> Inl ParseError)"

definition unlink :: "world \<Rightarrow> string \<Rightarrow> error + world" where
  "unlink w path =
     (case files w path of
        None \<Rightarrow> Inl FileNotFoundError
      | Some _ \<Rightarrow> Inr (w\<lparr>files := (files w)(path := None)\<rparr>))"

text \<open>Lines 447 to 450: the rows of the actigraphy file as dictionaries.\<close>

definition read_activity_csv :: "file_content \<Rightarrow> error + (string \<rightharpoonup> string) list" where
  "read_activity_csv f =
     (case f of
        ActivityCsv header rows \<Rightarrow> Inr (map (dict_zip header) rows)
      | _ \<Rightarrow> Inl ValueError)"

section \<open>The readers as generators\<close>

text \<open>
  The parameters of \<open>read_mesa\<close> and \<open>read_shhs\<close> that the loop consults (\<open>read_shhs\<close> has no
  \<open>activity_source\<close>; there it is \<open>None\<close>). \<open>records_pattern\<close> and \<open>data_dir\<close> only select what
  the listing returns.
\<close>

record args =
  heartbeats_source :: string
  activity_source :: "string option"
  offline :: bool
  keep_edfs :: bool

text \<open>What the code before the loop leaves in the generator's frame.\<close>

record env =
  env_args :: args
  env_checksums :: "string list"
  env_subject_data :: "string \<Rightarrow> SubjectData option"
  env_overlap_data :: "int \<Rightarrow> int option"
  env_today :: int

datatype skip_reason =
  MissingHeartbeatAnnotations | MissingCachedHeartbeats | MissingCachedActivityCounts
  | MissingOverlapData | MissingActivityData | MissingLine | InvalidActivityCounts

text \<open>
  One pass through the loop body ends in the \<open>yield\<close>, in a \<open>continue\<close> after a printed
  reason, or in an exception that leaves the generator.
\<close>

datatype 'a step = Ok 'a | Skip skip_reason | Raise error

definition ANNOTATION_DIRNAME :: string where
  "ANNOTATION_DIRNAME = ''polysomnography/annotations-events-nsrr''"

definition EDF_DIRNAME :: string where
  "EDF_DIRNAME = ''polysomnography/edfs''"

definition ACTIVITY_DIRNAME :: string where
  "ACTIVITY_DIRNAME = ''actigraphy''"

definition HEARTBEATS_DIRNAME :: string where
  "HEARTBEATS_DIRNAME = ''preprocessed/heartbeats''"

definition ACTIVITY_COUNTS_DIRNAME :: string where
  "ACTIVITY_COUNTS_DIRNAME = ''preprocessed/activity_counts''"

definition RPOINTS_DIRNAME :: string where
  "RPOINTS_DIRNAME = ''polysomnography/annotations-rpoints''"

definition heartbeats_file_of :: "string \<Rightarrow> string" where
  "heartbeats_file_of record_id = HEARTBEATS_DIRNAME @ ''/'' @ record_id @ ''.npy''"

definition rpoints_filename_of :: "string \<Rightarrow> string" where
  "rpoints_filename_of record_id = RPOINTS_DIRNAME @ ''/'' @ record_id @ ''-rpoint.csv''"

definition edf_filename_of :: "string \<Rightarrow> string" where
  "edf_filename_of record_id = EDF_DIRNAME @ ''/'' @ record_id @ ''.edf''"

definition xml_filename_of :: "string \<Rightarrow> string" where
  "xml_filename_of record_id = ANNOTATION_DIRNAME @ ''/'' @ record_id @ ''-nsrr.xml''"

definition activity_filename_of :: "string \<Rightarrow> string" where
  "activity_filename_of record_id = ACTIVITY_DIRNAME @ ''/'' @ record_id @ ''.csv''"

definition activity_counts_file_of :: "string \<Rightarrow> string" where
  "activity_counts_file_of record_id =
     ACTIVITY_COUNTS_DIRNAME @ ''/'' @ record_id @ ''-activity-counts.npy''"

text \<open>
  Lines 364 to 375 and 762 to 773: the sidecar is fetched when it is missing, the reader is
  online and the listing knows it; otherwise the record is skipped.
\<close>

definition ensure_rpoints :: "env \<Rightarrow> world \<Rightarrow> string \<Rightarrow> unit step \<times> world" where
  "ensure_rpoints env w rpoints_filename =
     (if files w rpoints_filename = None
      then (if \<not> offline (env_args env) \<and> rpoints_filename \<in> set (env_checksums env)
            then (case download_nsrr_file w rpoints_filename of
                    Inl e \<Rightarrow> (Raise e, w)
                  | Inr w' \<Rightarrow> (Ok (), w'))
            else (Skip MissingHeartbeatAnnotations, w))
      else (Ok (), w))"

text \<open>
  Lines 391 to 407 and 785 to 803: detection on the decoded signal. The detector
  \<open>sleepecg.detect_heartbeats\<close> is a parameter: samples and sampling frequency to sample
  indices. The division is the division of real numbers; for a sampling frequency of
  zero numpy gives \<open>inf\<close> or \<open>nan\<close>, which have no counterpart here.
\<close>

definition ecg_heartbeats ::
  "(real list \<Rightarrow> real \<Rightarrow> nat list) \<Rightarrow> string \<Rightarrow> env \<Rightarrow> world \<Rightarrow> string
     \<Rightarrow> ndarray option step \<times> world" where
  "ecg_heartbeats detect_heartbeats label env w record_id =
     (let edf_filename = edf_filename_of record_id;
          edf_was_available = (files w edf_filename \<noteq> None)
      in case (if \<not> offline (env_args env)
               then download_listed (env_checksums env) w edf_filename
               else Inr w) of
           Inl e \<Rightarrow> (Raise e, w)
         | Inr w1 \<Rightarrow>
        (case read_edf_signal w1 edf_filename label of
           Inl e \<Rightarrow> (Raise e, w1)
         | Inr (data, fs) \<Rightarrow>
             (let heartbeat_indices = detect_heartbeats data fs;
                  beat_times = Vector (map (\<lambda>i. real i / fs) heartbeat_indices);
                  w2 = np_save w1 (heartbeats_file_of record_id) beat_times
              in if \<not> edf_was_available \<and> \<not> keep_edfs (env_args env)
                 then (case unlink w2 edf_filename of
                         Inl e \<Rightarrow> (Raise e, w2)
                       | Inr w3 \<Rightarrow> (Ok (Some beat_times), w3))
                 else (Ok (Some beat_times), w2))))"

text \<open>
  Lines 362 to 407 of \<open>read_mesa\<close>. The result is the binding of the local variable
  \<open>heartbeat_times\<close> after the \<open>if\<close>/\<open>elif\<close> chain; \<open>hb\<close> is its binding before.
\<close>

definition mesa_heartbeats ::
  "(real list \<Rightarrow> real \<Rightarrow> nat list) \<Rightarrow> env \<Rightarrow> ndarray option \<Rightarrow> world \<Rightarrow> string
     \<Rightarrow> ndarray option step \<times> world" where
  "mesa_heartbeats detect_heartbeats env hb w record_id =
     (if heartbeats_source (env_args env) = ''annotation'' then
        (case ensure_rpoints env w (rpoints_filename_of record_id) of
           (Skip r, w1) \<Rightarrow> (Skip r, w1)
         | (Raise e, w1) \<Rightarrow> (Raise e, w1)
         | (Ok _, w1) \<Rightarrow>
             (case np_loadtxt w1 (rpoints_filename_of record_id) of
                Inl e \<Rightarrow> (Raise e, w1)
              | Inr loaded \<Rightarrow>
                  (case np_sort loaded of
                     Inl e \<Rightarrow> (Raise e, w1)
                   | Inr sorted_times \<Rightarrow> (Ok (Some sorted_times), w1))))
      else if heartbeats_source (env_args env) = ''cached'' then
        (if files w (heartbeats_file_of record_id) = None
         then (Skip MissingCachedHeartbeats, w)
         else (case np_load w (heartbeats_file_of record_id) of
                 Inl e \<Rightarrow> (Raise e, w)
               | Inr loaded \<Rightarrow> (Ok (Some loaded), w)))
      else if heartbeats_source (env_args env) = ''ecg'' then
        ecg_heartbeats detect_heartbeats ''EKG'' env w record_id
      else (Ok hb, w))"

text \<open>Lines 760 to 803 of \<open>read_shhs\<close>.\<close>

definition shhs_heartbeats ::
  "(real list \<Rightarrow> real \<Rightarrow> nat list) \<Rightarrow> env \<Rightarrow> ndarray option \<Rightarrow> world \<Rightarrow> string
     \<Rightarrow> ndarray option step \<times> world" where
  "shhs_heartbeats detect_heartbeats env hb w record_id =
     (if heartbeats_source (env_args env) = ''annotation'' then
        (case ensure_rpoints env w (rpoints_filename_of record_id) of
           (Skip r, w1) \<Rightarrow> (Skip r, w1)
         | (Raise e, w1) \<Rightarrow> (Raise e, w1)
         | (Ok _, w1) \<Rightarrow>
             (case np_loadtxt w1 (rpoints_filename_of record_id) of
                Inl e \<Rightarrow> (Raise e, w1)
              | Inr loaded \<Rightarrow> (Ok (Some loaded), w1)))
      else if heartbeats_source (env_args env) = ''cached'' then
        (if files w (heartbeats_file_of record_id) = None
         then (Skip MissingCachedHeartbeats, w)
         else (Ok hb, w))
      else if heartbeats_source (env_args env) = ''ecg'' then
        ecg_heartbeats detect_heartbeats ''ECG'' env w record_id
      else (Ok hb, w))"

text \<open>Lines 409 to 418 and 805 to 814: fetch the annotation file and parse it.\<close>

definition fetch_and_parse ::
  "env \<Rightarrow> world \<Rightarrow> string \<Rightarrow> (error + ParseNsrrXmlResult) \<times> world" where
  "fetch_and_parse env w record_id =
     (case (if \<not> offline (env_args env)
            then download_listed (env_checksums env) w (xml_filename_of record_id)
            else Inr w) of
        Inl e \<Rightarrow> (Inl e, w)
      | Inr w1 \<Rightarrow>
          (case ElementTree_parse w1 (xml_filename_of record_id) of
             Inl e \<Rightarrow> (Inl e, w1)
           | Inr root_el \<Rightarrow> (parse_nsrr_xml root_el, w1)))"

text \<open>Lines 452 to 499: from the parsed annotation and the actigraphy rows to the counts.\<close>

definition align_activity ::
  "int \<Rightarrow> ParseNsrrXmlResult \<Rightarrow> int \<Rightarrow> (string \<rightharpoonup> string) list \<Rightarrow> real list step" where
  "align_activity today parsed_xml overlap_line activity_data =
     (case recording_end_time_str today (parsed_recording_start_time parsed_xml)
             (parsed_recording_duration parsed_xml) of
        Inl e \<Rightarrow> Raise e
      | Inr label \<Rightarrow>
     (let start_line = overlap_line + 1
      in case find_end_line activity_data label of
           None \<Rightarrow> Skip MissingLine
         | Some (Inl e) \<Rightarrow> Raise e
         | Some (Inr end_line) \<Rightarrow>
        (case activity_column (py_slice activity_data start_line end_line) of
           Inl e \<Rightarrow> Raise e
         | Inr candidate \<Rightarrow>
        (case reconcile_length candidate (length (parsed_sleep_stages parsed_xml)) of
           None \<Rightarrow> Skip InvalidActivityCounts
         | Some counts \<Rightarrow>
        (case astype_float counts of
           Inl e \<Rightarrow> Raise e
         | Inr xs \<Rightarrow> Ok xs)))))"

text \<open>Line 429: \<open>int(record_id.split("-")[2])\<close>.\<close>

definition mesaid_of :: "string \<Rightarrow> error + int" where
  "mesaid_of record_id =
     (case py_split_sep (CHR ''-'') record_id of
        _ # _ # t # _ \<Rightarrow> py_int t
      | _ \<Rightarrow> Inl IndexError)"

text \<open>Lines 429 to 500: the branch \<open>activity_source == "actigraphy"\<close>.\<close>

definition mesa_actigraphy ::
  "env \<Rightarrow> world \<Rightarrow> string \<Rightarrow> ParseNsrrXmlResult \<Rightarrow> ndarray option step \<times> world" where
  "mesa_actigraphy env w record_id parsed_xml =
     (case mesaid_of record_id of
        Inl e \<Rightarrow> (Raise e, w)
      | Inr mesaid \<Rightarrow>
     (case env_overlap_data env mesaid of
        None \<Rightarrow> (Skip MissingOverlapData, w)
      | Some overlap_line \<Rightarrow>
     (case (if \<not> offline (env_args env)
            then download_listed (env_checksums env) w (activity_filename_of record_id)
            else Inr w) of
        Inl e \<Rightarrow> (Raise e, w)
      | Inr w1 \<Rightarrow>
     (case files w1 (activity_filename_of record_id) of
        None \<Rightarrow> (Skip MissingActivityData, w1)
      | Some f \<Rightarrow>
     (case read_activity_csv f of
        Inl e \<Rightarrow> (Raise e, w1)
      | Inr activity_data \<Rightarrow>
     (case align_activity (env_today env) parsed_xml overlap_line activity_data of
        Skip r \<Rightarrow> (Skip r, w1)
      | Raise e \<Rightarrow> (Raise e, w1)
      | Ok counts \<Rightarrow>
          (Ok (Some (Vector counts)),
           np_save w1 (activity_counts_file_of record_id) (Vector counts))))))))"

text \<open>Lines 420 to 500.\<close>

definition mesa_activity ::
  "env \<Rightarrow> world \<Rightarrow> string \<Rightarrow> ParseNsrrXmlResult \<Rightarrow> ndarray option step \<times> world" where
  "mesa_activity env w record_id parsed_xml =
     (case activity_source (env_args env) of
        None \<Rightarrow> (Ok None, w)
      | Some src \<Rightarrow>
          if src = ''cached'' then
            (if files w (activity_counts_file_of record_id) = None
             then (Skip MissingCachedActivityCounts, w)
             else (case np_load w (activity_counts_file_of record_id) of
                     Inl e \<Rightarrow> (Raise e, w)
                   | Inr loaded \<Rightarrow> (Ok (Some loaded), w)))
          else mesa_actigraphy env w record_id parsed_xml)"

text \<open>
  Lines 502 to 510 and 816 to 823: the arguments of \<open>SleepRecord(...)\<close> are evaluated in
  order, so an unbound \<open>heartbeat_times\<close> is reported before a missing metadata row.
\<close>

definition make_record ::
  "env \<Rightarrow> ParseNsrrXmlResult \<Rightarrow> string \<Rightarrow> ndarray option \<Rightarrow> ndarray option
     \<Rightarrow> SleepRecord step" where
  "make_record env parsed_xml ident hb activity =
     (case hb of
        None \<Rightarrow> Raise UnboundLocalError
      | Some beat_times \<Rightarrow>
          (case env_subject_data env ident of
             None \<Rightarrow> Raise KeyError
           | Some sd \<Rightarrow>
               Ok \<lparr>sleep_stages = parsed_sleep_stages parsed_xml,
                   sleep_stage_duration = parsed_sleep_stage_duration parsed_xml,
                   id_str = ident,
                   recording_start_time = parsed_recording_start_time parsed_xml,
                   heartbeat_times = beat_times,
                   subject_data = sd,
                   activity_counts = activity\<rparr>))"

text \<open>
  The body of the loop of \<open>read_mesa\<close> (lines 361 to 510) for one record id. It returns the
  outcome, the binding of \<open>heartbeat_times\<close> it leaves behind, and the files.
\<close>

definition mesa_record ::
  "(real list \<Rightarrow> real \<Rightarrow> nat list) \<Rightarrow> env \<Rightarrow> ndarray option \<Rightarrow> world \<Rightarrow> string
     \<Rightarrow> SleepRecord step \<times> ndarray option \<times> world" where
  "mesa_record detect_heartbeats env hb w record_id =
     (case mesa_heartbeats detect_heartbeats env hb w record_id of
        (Skip r, w1) \<Rightarrow> (Skip r, hb, w1)
      | (Raise e, w1) \<Rightarrow> (Raise e, hb, w1)
      | (Ok hb1, w1) \<Rightarrow>
     (case fetch_and_parse env w1 record_id of
        (Inl e, w2) \<Rightarrow> (Raise e, hb1, w2)
      | (Inr parsed_xml, w2) \<Rightarrow>
     (case mesa_activity env w2 record_id parsed_xml of
        (Skip r, w3) \<Rightarrow> (Skip r, hb1, w3)
      | (Raise e, w3) \<Rightarrow> (Raise e, hb1, w3)
      | (Ok activity, w3) \<Rightarrow> (make_record env parsed_xml record_id hb1 activity, hb1, w3))))"

text \<open>The body of the loop of \<open>read_shhs\<close> (lines 759 to 823).\<close>

definition shhs_record ::
  "(real list \<Rightarrow> real \<Rightarrow> nat list) \<Rightarrow> env \<Rightarrow> ndarray option \<Rightarrow> world \<Rightarrow> string
     \<Rightarrow> SleepRecord step \<times> ndarray option \<times> world" where
  "shhs_record detect_heartbeats env hb w record_id =
     (case shhs_heartbeats detect_heartbeats env hb w record_id of
        (Skip r, w1) \<Rightarrow> (Skip r, hb, w1)
      | (Raise e, w1) \<Rightarrow> (Raise e, hb, w1)
      | (Ok hb1, w1) \<Rightarrow>
     (case fetch_and_parse env w1 record_id of
        (Inl e, w2) \<Rightarrow> (Raise e, hb1, w2)
      | (Inr parsed_xml, w2) \<Rightarrow>
          (make_record env parsed_xml (drop 6 record_id) hb1 None, hb1, w2)))"

text \<open>
  What the code before the loop computes from its collaborators (listing, download,
  \<open>np.loadtxt\<close>, \<open>csv.DictReader\<close>, the clock): the requested record ids, the names the
  listing returned, the rows of the subject table, the rows of the overlap table (\<open>None\<close>
  when that file is absent) and today's date.
\<close>

record 'r inputs =
  requested_records :: "string list"
  checksums :: "string list"
  subject_rows :: 'r
  overlap_entries :: "(string \<rightharpoonup> string) list option"
  today :: int

text \<open>Lines 356 to 359.\<close>

fun load_overlap ::
  "(string \<rightharpoonup> string) list \<Rightarrow> (int \<rightharpoonup> int) \<Rightarrow> error + (int \<rightharpoonup> int)" where
  "load_overlap [] acc = Inr acc"
| "load_overlap (entry # entries) acc =
     (case entry ''mesaid'' of
        None \<Rightarrow> Inl KeyError
      | Some m \<Rightarrow>
     (case py_int m of
        Inl e \<Rightarrow> Inl e
      | Inr mesaid \<Rightarrow>
     (case entry ''line'' of
        None \<Rightarrow> Inl KeyError
      | Some l \<Rightarrow>
     (case py_int l of
        Inl e \<Rightarrow> Inl e
      | Inr line \<Rightarrow> load_overlap entries (acc(mesaid \<mapsto> line))))))"

text \<open>
  \<open>read_mesa\<close> up to line 359: the two option checks, the check of line 330, the subject
  table and the overlap table.
\<close>

definition mesa_prologue ::
  "args \<Rightarrow> (int \<times> int \<times> int) list inputs \<Rightarrow> error + (env \<times> string list)" where
  "mesa_prologue a inp =
     (if heartbeats_source a \<notin> set [''annotation'', ''cached'', ''ecg''] then Inl ValueError
      else if activity_source a \<notin> set [None, Some ''cached'', Some ''actigraphy'']
      then Inl ValueError
      else if offline a \<and> activity_source a = Some ''actigraphy'' \<and> overlap_entries inp = None
      then Inl RuntimeError
      else
     (case load_subject_rows mesa_subject_row (subject_rows inp) Map.empty of
        Inl e \<Rightarrow> Inl e
      | Inr sd \<Rightarrow>
     (case (if activity_source a = Some ''actigraphy''
            then (case overlap_entries inp of
                    None \<Rightarrow> Inl FileNotFoundError
                  | Some entries \<Rightarrow> load_overlap entries Map.empty)
            else Inr Map.empty) of
        Inl e \<Rightarrow> Inl e
      | Inr ov \<Rightarrow>
          Inr (\<lparr>env_args = a, env_checksums = checksums inp, env_subject_data = sd,
                env_overlap_data = ov, env_today = today inp\<rparr>,
               requested_records inp))))"

text \<open>\<open>read_shhs\<close> up to line 757: the option check and the two subject tables.\<close>

definition shhs_prologue ::
  "args \<Rightarrow> (csv_row list \<times> csv_row list) inputs \<Rightarrow> error + (env \<times> string list)" where
  "shhs_prologue a inp =
     (if heartbeats_source a \<notin> set [''annotation'', ''cached'', ''ecg''] then Inl ValueError
      else
     (case (if list_ex (\<lambda>r. take 5 r = ''shhs1'') (requested_records inp)
            then load_subject_rows shhs1_subject_row (fst (subject_rows inp)) Map.empty
            else Inr Map.empty) of
        Inl e \<Rightarrow> Inl e
      | Inr sd1 \<Rightarrow>
     (case (if list_ex (\<lambda>r. take 5 r = ''shhs2'') (requested_records inp)
            then load_subject_rows shhs2_subject_row (snd (subject_rows inp)) sd1
            else Inr sd1) of
        Inl e \<Rightarrow> Inl e
      | Inr sd \<Rightarrow>
          Inr (\<lparr>env_args = a, env_checksums = checksums inp, env_subject_data = sd,
                env_overlap_data = Map.empty, env_today = today inp\<rparr>,
               requested_records inp))))"

text \<open>
  Both readers contain \<open>yield\<close>, so they are generator functions: a call binds the
  arguments and returns a generator object without running any line of the body. The
  body runs in \<open>next()\<close>: from the start to the first \<open>yield\<close>, then from one \<open>yield\<close> to the
  next. An exception leaves the generator finished, and so does the end of the loop,
  which \<open>next()\<close> reports as \<open>StopIteration\<close>.
\<close>

datatype 'r generator =
  Created args "'r inputs"
  | Suspended env "string list" "ndarray option"
  | Finished

definition read_mesa ::
  "args \<Rightarrow> (int \<times> int \<times> int) list inputs \<Rightarrow> error + (int \<times> int \<times> int) list generator" where
  "read_mesa a inp = Inr (Created a inp)"

definition read_shhs ::
  "args \<Rightarrow> (csv_row list \<times> csv_row list) inputs
     \<Rightarrow> error + (csv_row list \<times> csv_row list) generator" where
  "read_shhs a inp = Inr (Created a inp)"

fun run_records ::
  "(env \<Rightarrow> ndarray option \<Rightarrow> world \<Rightarrow> string \<Rightarrow> SleepRecord step \<times> ndarray option \<times> world)
     \<Rightarrow> env \<Rightarrow> string list \<Rightarrow> ndarray option \<Rightarrow> world
     \<Rightarrow> (error + SleepRecord) \<times> 'r generator \<times> world" where
  "run_records body env [] hb w = (Inl StopIteration, Finished, w)"
| "run_records body env (record_id # pending) hb w =
     (case body env hb w record_id of
        (Ok rec, hb', w') \<Rightarrow> (Inr rec, Suspended env pending hb', w')
      | (Skip _, hb', w') \<Rightarrow> run_records body env pending hb' w'
      | (Raise e, hb', w') \<Rightarrow> (Inl e, Finished, w'))"

definition gen_next ::
  "(args \<Rightarrow> 'r inputs \<Rightarrow> error + (env \<times> string list))
     \<Rightarrow> (env \<Rightarrow> ndarray option \<Rightarrow> world \<Rightarrow> string \<Rightarrow> SleepRecord step \<times> ndarray option \<times> world)
     \<Rightarrow> 'r generator \<Rightarrow> world \<Rightarrow> (error + SleepRecord) \<times> 'r generator \<times> world" where
  "gen_next prologue body g w =
     (case g of
        Created a inp \<Rightarrow>
          (case prologue a inp of
             Inl e \<Rightarrow> (Inl e, Finished, w)
           | Inr (env, pending) \<Rightarrow> run_records body env pending None w)
      | Suspended env pending hb \<Rightarrow> run_records body env pending hb w
      | Finished \<Rightarrow> (Inl StopIteration, Finished, w))"

definition mesa_next ::
  "(real list \<Rightarrow> real \<Rightarrow> nat list) \<Rightarrow> (int \<times> int \<times> int) list generator \<Rightarrow> world
     \<Rightarrow> (error + SleepRecord) \<times> (int \<times> int \<times> int) list generator \<times> world" where
  "mesa_next detect_heartbeats = gen_next mesa_prologue (mesa_record detect_heartbeats)"

definition shhs_next ::
  "(real list \<Rightarrow> real \<Rightarrow> nat list) \<Rightarrow> (csv_row list \<times> csv_row list) generator \<Rightarrow> world
     \<Rightarrow> (error + SleepRecord) \<times> (csv_row list \<times> csv_row list) generator \<times> world" where
  "shhs_next detect_heartbeats = gen_next shhs_prologue (shhs_record detect_heartbeats)"

section \<open>Concrete inputs\<close>

text \<open>
  A recording of three epochs starting at 22:00:00, and an actigraphy table whose row
  labelled with the end of the recording is line 2.
\<close>

definition short_parsed :: ParseNsrrXmlResult where
  "short_parsed =
     \<lparr>parsed_sleep_stages = [N2, N2, N2], parsed_sleep_stage_duration = 30,
      parsed_recording_start_time = \<lparr>hour = 22, minute = 0, second = 0\<rparr>,
      parsed_recording_duration = 90\<rparr>"

definition short_activity :: "(string \<rightharpoonup> string) list" where
  "short_activity =
     map (dict_zip [''line'', ''linetime'', ''activity''])
       [[''1'', ''22:01:00'', ''5''], [''2'', ''22:01:30'', ''7''], [''3'', ''22:02:00'', ''9'']]"

text \<open>
  The spec's words for the parser: the staging events are the children of the event
  stream whose type denotes a staging event, and each of them stands for
  \<open>floor(event_duration / epoch_length)\<close> copies of its mapped stage.
\<close>

definition scored_events_of :: "xml \<Rightarrow> xml list" where
  "scored_events_of root_el =
     (case filter (\<lambda>c. tag c = ''ScoredEvents'') (children root_el) of
        [] \<Rightarrow> []
      | scored_events # _ \<Rightarrow> children scored_events)"

definition is_staging_event :: "xml \<Rightarrow> bool" where
  "is_staging_event event = (findtext event ''EventType'' = Some ''Stages|Stages'')"

definition is_start_event :: "xml \<Rightarrow> bool" where
  "is_start_event event = (findtext event ''EventConcept'' = Some ''Recording Start Time'')"

definition spec_event_epochs :: "int \<Rightarrow> xml \<Rightarrow> SleepStage list" where
  "spec_event_epochs epoch_length event =
     (case (py_float (findtext_default event ''Duration'' []),
            STAGE_MAPPING (findtext_default event ''EventConcept'' [])) of
        (Inr d, Some stage) \<Rightarrow> replicate (nat \<lfloor>d / real_of_int epoch_length\<rfloor>) stage
      | _ \<Rightarrow> [])"

definition spec_stage_sequence :: "int \<Rightarrow> xml \<Rightarrow> SleepStage list" where
  "spec_stage_sequence epoch_length root_el =
     concat (map (spec_event_epochs epoch_length) (filter is_staging_event (scored_events_of root_el)))"

text \<open>
  A well-formed annotation: the epoch length is an integer, the first \<open>ScoredEvent\<close> has a
  decimal \<open>Duration\<close>, the event stream exists and holds a "Recording Start Time" event,
  every such event has a clock time \<open>date hh.mm.ss\<close>, and every staging event has a decimal
  duration and a known label, with a non-zero epoch length to divide by.
\<close>

definition well_formed_event :: "int \<Rightarrow> xml \<Rightarrow> bool" where
  "well_formed_event epoch_length event =
     ((if is_start_event event
       then (case py_split (findtext_default event ''ClockTime'' []) of
               _ # tok # _ \<Rightarrow> \<not> isl (strptime_HMS tok)
             | _ \<Rightarrow> False)
       else True)
      \<and> (if is_staging_event event
         then \<not> isl (py_float (findtext_default event ''Duration'' []))
              \<and> STAGE_MAPPING (findtext_default event ''EventConcept'' []) \<noteq> None
              \<and> epoch_length \<noteq> 0
         else True))"

definition well_formed_annotation :: "xml \<Rightarrow> bool" where
  "well_formed_annotation root_el =
     (case findtext root_el ''EpochLength'' of
        None \<Rightarrow> False
      | Some epoch_length_str \<Rightarrow>
     (case py_int epoch_length_str of
        Inl _ \<Rightarrow> False
      | Inr epoch_length \<Rightarrow>
          (case find_desc ''ScoredEvent'' root_el of
             None \<Rightarrow> False
           | Some scored_event \<Rightarrow>
               \<not> isl (py_float (findtext_desc_default scored_event ''Duration'' [])))
          \<and> filter (\<lambda>c. tag c = ''ScoredEvents'') (children root_el) \<noteq> []
          \<and> list_all (well_formed_event epoch_length) (scored_events_of root_el)
          \<and> list_ex is_start_event (scored_events_of root_el)))"

text \<open>
  End-to-end scenario 1: \<open>EpochLength\<close> 30, the start event, and one "Stage 2 sleep|2" event of
  duration 60.
\<close>

definition start_event :: xml where
  "start_event =
     Element ''ScoredEvent'' None
       [Element ''EventType'' None [],
        Element ''EventConcept'' (Some ''Recording Start Time'') [],
        Element ''Start'' (Some ''0'') [],
        Element ''Duration'' (Some ''60.0'') [],
        Element ''ClockTime'' (Some ''00.00.00 22.30.00'') []]"

definition stage2_event :: xml where
  "stage2_event =
     Element ''ScoredEvent'' None
       [Element ''EventType'' (Some ''Stages|Stages'') [],
        Element ''EventConcept'' (Some ''Stage 2 sleep|2'') [],
        Element ''Start'' (Some ''0'') [],
        Element ''Duration'' (Some ''60'') []]"

definition scenario1 :: xml where
  "scenario1 =
     Element ''PSGAnnotation'' None
       [Element ''SoftwareVersion'' (Some ''Compumedics'') [],
        Element ''EpochLength'' (Some ''30'') [],
        Element ''ScoredEvents'' None [start_event, stage2_event]]"

text \<open>The scenario with a label that the lookup table does not know.\<close>

definition unknown_stage_event :: xml where
  "unknown_stage_event =
     Element ''ScoredEvent'' None
       [Element ''EventType'' (Some ''Stages|Stages'') [],
        Element ''EventConcept'' (Some ''Stage 7 sleep|7'') [],
        Element ''Start'' (Some ''0'') [],
        Element ''Duration'' (Some ''60'') []]"

definition unknown_label_doc :: xml where
  "unknown_label_doc =
     Element ''PSGAnnotation'' None
       [Element ''EpochLength'' (Some ''30'') [],
        Element ''ScoredEvents'' None [start_event, unknown_stage_event]]"

text \<open>Annotation files that lack one of the three required parts.\<close>

definition no_epoch_length_doc :: xml where
  "no_epoch_length_doc =
     Element ''PSGAnnotation'' None [Element ''ScoredEvents'' None [start_event, stage2_event]]"

definition no_scored_event_doc :: xml where
  "no_scored_event_doc =
     Element ''PSGAnnotation'' None
       [Element ''EpochLength'' (Some ''30'') [], Element ''ScoredEvents'' None []]"

definition no_duration_doc :: xml where
  "no_duration_doc =
     Element ''PSGAnnotation'' None
       [Element ''EpochLength'' (Some ''30'') [],
        Element ''ScoredEvents'' None
          [Element ''ScoredEvent'' None
             [Element ''EventConcept'' (Some ''Recording Start Time'') [],
              Element ''ClockTime'' (Some ''00.00.00 22.30.00'') []]]]"

definition no_start_time_doc :: xml where
  "no_start_time_doc =
     Element ''PSGAnnotation'' None
       [Element ''EpochLength'' (Some ''30'') [],
        Element ''ScoredEvents'' None [stage2_event]]"

text \<open>
  Rows of the subject tables: an SHHS row with an unmapped gender code and blank age and
  weight, an SHHS row whose age is the marker \<open>x\<close>, and an SLPDB header comment with \<open>x\<close> for
  age and weight.
\<close>

definition blank_shhs_row :: csv_row where
  "blank_shhs_row =
     [''nsrrid'' \<mapsto> Some ''200001'', ''gender'' \<mapsto> Some ''9'', ''age_s1'' \<mapsto> Some [],
      ''age_s2'' \<mapsto> Some [], ''weight'' \<mapsto> Some []]"

definition x_age_shhs_row :: csv_row where
  "x_age_shhs_row =
     [''nsrrid'' \<mapsto> Some ''200002'', ''gender'' \<mapsto> Some ''1'', ''age_s1'' \<mapsto> Some ''x'',
      ''weight'' \<mapsto> Some ''80'']"

definition unknown_slpdb_comment :: string where
  "unknown_slpdb_comment = ''x M x 32-01-89''"

text \<open>The output invariant the spec asks of heartbeat times.\<close>

definition nondecreasing :: "ndarray \<Rightarrow> bool" where
  "nondecreasing a = (case a of Scalar _ \<Rightarrow> True | Vector xs \<Rightarrow> sorted xs)"

text \<open>A detector for the examples: the indices of the positive samples.\<close>

fun positive_indices :: "nat \<Rightarrow> real list \<Rightarrow> nat list" where
  "positive_indices i [] = []"
| "positive_indices i (x # xs) =
     (if 0 < x then i # positive_indices (Suc i) xs else positive_indices (Suc i) xs)"

definition sample_detector :: "real list \<Rightarrow> real \<Rightarrow> nat list" where
  "sample_detector data fs = positive_indices 0 data"

text \<open>
  A local MESA directory. Record 0001 has an annotation file without \<open>EpochLength\<close>, record
  0002 has the file of scenario 1; both have a sidecar whose times are out of order, and
  record 0002 has a cached array that is out of order. Record 0003 has no file at all.
\<close>

definition mesa_files :: "string \<Rightarrow> file_content option" where
  "mesa_files =
     [rpoints_filename_of ''mesa-sleep-0001'' \<mapsto> RpointsCsv (Vector [5, 2, 3]),
      xml_filename_of ''mesa-sleep-0001'' \<mapsto> XmlFile no_epoch_length_doc,
      rpoints_filename_of ''mesa-sleep-0002'' \<mapsto> RpointsCsv (Vector [5, 2, 3]),
      xml_filename_of ''mesa-sleep-0002'' \<mapsto> XmlFile scenario1,
      heartbeats_file_of ''mesa-sleep-0002'' \<mapsto> NpyFile (Vector [4, 1])]"

definition mesa_world :: world where
  "mesa_world = \<lparr>files = mesa_files, remote = Map.empty\<rparr>"

definition offline_args :: "string \<Rightarrow> string option \<Rightarrow> args" where
  "offline_args hs act =
     \<lparr>heartbeats_source = hs, activity_source = act, offline = True, keep_edfs = False\<rparr>"

definition mesa_inputs :: "string list \<Rightarrow> (int \<times> int \<times> int) list inputs" where
  "mesa_inputs rs =
     \<lparr>requested_records = rs, checksums = [], subject_rows = [(1, 0, 70), (2, 1, 65)],
      overlap_entries = None, today = 739000\<rparr>"

definition mesa_subjects :: "string \<Rightarrow> SubjectData option" where
  "mesa_subjects =
     [''mesa-sleep-0001'' \<mapsto> \<lparr>gender = Some FEMALE, age = Some 70, weight = None\<rparr>,
      ''mesa-sleep-0002'' \<mapsto> \<lparr>gender = Some MALE, age = Some 65, weight = None\<rparr>]"

definition mesa_env :: "args \<Rightarrow> env" where
  "mesa_env a =
     \<lparr>env_args = a, env_checksums = [], env_subject_data = mesa_subjects,
      env_overlap_data = Map.empty, env_today = 739000\<rparr>"

definition scenario1_parsed_result :: ParseNsrrXmlResult where
  "scenario1_parsed_result =
     \<lparr>parsed_sleep_stages = [N2, N2], parsed_sleep_stage_duration = 30,
      parsed_recording_start_time = \<lparr>hour = 22, minute = 30, second = 0\<rparr>,
      parsed_recording_duration = 60\<rparr>"

definition mesa_record_0002 :: "ndarray \<Rightarrow> SleepRecord" where
  "mesa_record_0002 hbt =
     \<lparr>sleep_stages = [N2, N2], sleep_stage_duration = 30, id_str = ''mesa-sleep-0002'',
      recording_start_time = \<lparr>hour = 22, minute = 30, second = 0\<rparr>,
      heartbeat_times = hbt,
      subject_data = \<lparr>gender = Some MALE, age = Some 65, weight = None\<rparr>,
      activity_counts = None\<rparr>"

text \<open>
  A local SHHS directory with one record: a sidecar whose times are out of order, the
  annotation file of scenario 1 and the raw recording.
\<close>

definition shhs_files :: "string \<Rightarrow> file_content option" where
  "shhs_files =
     [rpoints_filename_of ''shhs1/shhs1-200001'' \<mapsto> RpointsCsv (Vector [5, 2, 3]),
      xml_filename_of ''shhs1/shhs1-200001'' \<mapsto> XmlFile scenario1,
      edf_filename_of ''shhs1/shhs1-200001'' \<mapsto> EdfFile [(''ECG'', [0, 1, 0, 1, 1], 2)]]"

definition shhs_world :: world where
  "shhs_world = \<lparr>files = shhs_files, remote = Map.empty\<rparr>"

definition shhs_row_200001 :: csv_row where
  "shhs_row_200001 =
     [''nsrrid'' \<mapsto> Some ''200001'', ''gender'' \<mapsto> Some ''1'', ''age_s1'' \<mapsto> Some ''55'',
      ''weight'' \<mapsto> Some ''80.5'']"

definition shhs_inputs :: "(csv_row list \<times> csv_row list) inputs" where
  "shhs_inputs =
     \<lparr>requested_records = [''shhs1/shhs1-200001''], checksums = [],
      subject_rows = ([shhs_row_200001], []), overlap_entries = None, today = 739000\<rparr>"

definition shhs_subjects :: "string \<Rightarrow> SubjectData option" where
  "shhs_subjects =
     [''shhs1-200001'' \<mapsto> \<lparr>gender = Some MALE, age = Some 55, weight = Some (161 / 2)\<rparr>]"

definition shhs_env :: "args \<Rightarrow> env" where
  "shhs_env a =
     \<lparr>env_args = a, env_checksums = [], env_subject_data = shhs_subjects,
      env_overlap_data = Map.empty, env_today = 739000\<rparr>"

definition shhs_record_200001 :: "ndarray \<Rightarrow> SleepRecord" where
  "shhs_record_200001 hbt =
     \<lparr>sleep_stages = [N2, N2], sleep_stage_duration = 30, id_str = ''shhs1-200001'',
      recording_start_time = \<lparr>hour = 22, minute = 30, second = 0\<rparr>,
      heartbeat_times = hbt,
      subject_data = \<lparr>gender = Some MALE, age = Some 55, weight = Some (161 / 2)\<rparr>,
      activity_counts = None\<rparr>"

text \<open>The same directory after a pass in \<open>ecg\<close> mode has stored the detected times.\<close>

definition shhs_cached_world :: world where
  "shhs_cached_world =
     np_save shhs_world (heartbeats_file_of ''shhs1/shhs1-200001'') (Vector [1 / 2, 3 / 2, 2])"

text \<open>The record on the server only, read online without keeping the raw recording.\<close>

definition online_world :: world where
  "online_world = \<lparr>files = Map.empty, remote = shhs_files\<rparr>"

definition online_env :: env where
  "online_env =
     \<lparr>env_args = \<lparr>heartbeats_source = ''ecg'', activity_source = None, offline = False,
                   keep_edfs = False\<rparr>,
      env_checksums = [xml_filename_of ''shhs1/shhs1-200001'',
                       edf_filename_of ''shhs1/shhs1-200001''],
      env_subject_data = shhs_subjects, env_overlap_data = Map.empty, env_today = 739000\<rparr>"

chapter \<open>Properties\<close>

section \<open>Rounding of the recording end time\<close>










section \<open>Length reconciliation of the activity counts\<close>

lemma reconcile_length_skip:
  "2 < \<bar>int (length c) - int n\<bar> \<Longrightarrow> reconcile_length c n = None"
  by (simp add: reconcile_length_def)

lemma reconcile_length_truncates:
  "n < length c \<Longrightarrow> length c \<le> n + 2 \<Longrightarrow> reconcile_length c n = Some (take n c)"
  by (auto simp add: reconcile_length_def py_slice_to_def slice_index_def Let_def)

lemma reconcile_length_pads:
  "length c < n \<Longrightarrow> n \<le> length c + 2 \<Longrightarrow>
     reconcile_length c n = Some (c @ drop (length c - (n - length c)) c)"
  by (auto simp add: reconcile_length_def py_slice_from_def slice_index_def Let_def
        nat_diff_distrib intro!: arg_cong [where f = "\<lambda>k. drop k c"])

lemma reconcile_length_exact:
  "\<bar>int (length c) - int n\<bar> \<le> 2 \<Longrightarrow> n \<le> 2 * length c \<Longrightarrow>
     \<exists>r. reconcile_length c n = Some r \<and> length r = n"
  by (auto simp add: reconcile_length_def py_slice_from_def py_slice_to_def slice_index_def
        Let_def)

lemmas py_eval =
  py_int_def py_float_def py_strip_def is_space_def py_signed_def py_nat_def is_digit_def
  digit_val_def py_unsigned_float_def py_fraction_def py_split_sep_def py_split_def

lemma short_end_label:
  "recording_end_time_str 739000 \<lparr>hour = 22, minute = 0, second = 0\<rparr> 90 = Inr ''22:01:30''"
  by (simp add: recording_end_time_str_def timedelta_seconds_def round_half_even_def
        day_us_def Let_def datetime_combine_def datetime_add_def datetime_second_def
        rounding_seconds_def end_time_str_def format_02_def digit_char_def)

lemma short_end_line: "find_end_line short_activity ''22:01:30'' = Some (Inr 2)"
  by (simp add: short_activity_def dict_zip_def py_eval)

lemma short_candidate: "activity_column (py_slice short_activity 1 2) = Inr [''7'']"
  by (simp add: short_activity_def dict_zip_def py_slice_def slice_index_def)

lemma short_reconciled: "reconcile_length [''7''] 3 = Some [''7'', ''7'']"
  by (simp add: reconcile_length_def py_slice_from_def slice_index_def)

lemma short_reconciled_length:
  "reconcile_length [''7''] (length [N2, N2, N2]) = Some [''7'', ''7'']"
  by (simp add: reconcile_length_def py_slice_from_def slice_index_def)

lemma short_floats: "astype_float [''7'', ''7''] = Inr [7, 7]"
  by (simp add: py_eval)

text \<open>
  C5. The claim asks for an output as long as the stage sequence whenever the lengths
  differ by at most 2. With one candidate count and three stages the difference is \<open>-2\<close>,
  the tail \<open>activity_counts[-2:]\<close> has only one element, and the record is emitted with
  two activity counts for three stages.
\<close>

theorem short_candidate_not_padded_to_length:
  "reconcile_length [''7''] 3 = Some [''7'', ''7'']
   \<and> align_activity 739000 short_parsed 0 short_activity = Ok [7, 7]
   \<and> length (parsed_sleep_stages short_parsed) = 3"
proof (intro conjI)
  show "reconcile_length [''7''] 3 = Some [''7'', ''7'']"
    by (rule short_reconciled)
  show "align_activity 739000 short_parsed 0 short_activity = Ok [7, 7]"
    by (simp add: align_activity_def short_parsed_def short_end_label short_end_line
          short_candidate short_reconciled_length py_eval del: list.size)
  show "length (parsed_sleep_stages short_parsed) = 3"
    by (simp add: short_parsed_def)
qed

section \<open>The annotation parser\<close>

lemma epoch_count:
  assumes "el \<noteq> 0"
  shows "nat (int_of_float (real_of_int (int_of_float d) / real_of_int el)) = nat \<lfloor>d / real_of_int el\<rfloor>"
proof (cases "0 < el")
  case True
  show ?thesis
  proof (cases "0 \<le> d")
    case True
    then have "0 \<le> \<lfloor>d\<rfloor>" by simp
    then have "0 \<le> real_of_int \<lfloor>d\<rfloor> / real_of_int el" using \<open>0 < el\<close> by simp
    then show ?thesis using True \<open>0 < el\<close>
      by (simp add: int_of_float_def floor_divide_real_eq_div floor_divide_of_int_eq)
  next
    case False
    then have dneg: "d < 0" by simp
    then have c: "\<lceil>d\<rceil> \<le> 0" by (simp add: ceiling_le_iff)
    have q: "real_of_int \<lceil>d\<rceil> / real_of_int el \<le> 0" using c \<open>0 < el\<close>
      by (simp add: divide_le_0_iff)
    have l: "int_of_float (real_of_int \<lceil>d\<rceil> / real_of_int el) \<le> 0"
      using q by (auto simp: int_of_float_def ceiling_le_iff  floor_le_iff)
    have "d / real_of_int el < 0" using dneg \<open>0 < el\<close> by (simp add: divide_less_0_iff)
    then have r: "\<lfloor>d / real_of_int el\<rfloor> \<le> 0" by (simp add: floor_le_iff)
    show ?thesis using l r dneg by (simp add: int_of_float_def)
  qed
next
  case False
  with assms have neg: "el < 0" by simp
  show ?thesis
  proof (cases "0 \<le> d")
    case True
    then have "0 \<le> \<lfloor>d\<rfloor>" by simp
    then have q: "real_of_int \<lfloor>d\<rfloor> / real_of_int el \<le> 0" using neg by (simp add: divide_le_0_iff)
    have l: "int_of_float (real_of_int \<lfloor>d\<rfloor> / real_of_int el) \<le> 0"
      using q by (auto simp: int_of_float_def ceiling_le_iff floor_le_iff)
    have "d / real_of_int el \<le> 0" using True neg by (simp add: divide_le_0_iff)
    then have r: "\<lfloor>d / real_of_int el\<rfloor> \<le> 0" by (simp add: floor_le_iff)
    show ?thesis using l r True by (simp add: int_of_float_def)
  next
    case False
    then have dneg: "d < 0" by simp
    then have c: "\<lceil>d\<rceil> \<le> 0" by (simp add: ceiling_le_iff)
    have q: "0 \<le> real_of_int \<lceil>d\<rceil> / real_of_int el" using c neg by (simp add: zero_le_divide_iff)
    have "\<lfloor>(- d) / real_of_int (- el)\<rfloor> = \<lfloor>- d\<rfloor> div (- el)"
      using neg by (intro floor_divide_real_eq_div) simp
    then have r: "\<lfloor>d / real_of_int el\<rfloor> = \<lceil>d\<rceil> div el"
      using div_minus_minus [of "- \<lfloor>- d\<rfloor>" el] by (simp add: ceiling_def)
    show ?thesis using q dneg r by (simp add: int_of_float_def floor_divide_of_int_eq)
  qed
qed

lemma event_epochs_spec:
  "event_epochs el ev = Inr new \<Longrightarrow> new = spec_event_epochs el ev"
  by (auto simp add: event_epochs_def spec_event_epochs_def Let_def epoch_count
        split: sum.splits option.splits if_splits)

lemma scan_events_stages:
  "scan_events el evs st acc = Inr (st', out) \<Longrightarrow>
     out = acc @ concat (map (spec_event_epochs el) (filter is_staging_event evs))"
proof (induction evs arbitrary: st acc)
  case Nil
  then show ?case by simp
next
  case (Cons ev evs)
  show ?case
  proof (cases "is_staging_event ev")
    case True
    with Cons.prems obtain st1 new where
      n: "event_epochs el ev = Inr new" and
      r: "scan_events el evs st1 (acc @ new) = Inr (st', out)"
      by (auto simp add: is_staging_event_def split: sum.splits if_splits)
    from Cons.IH [OF r] event_epochs_spec [OF n] True show ?thesis by simp
  next
    case False
    with Cons.prems obtain st1 where
      r: "scan_events el evs st1 acc = Inr (st', out)"
      by (auto simp add: is_staging_event_def split: sum.splits if_splits)
    from Cons.IH [OF r] False show ?thesis by simp
  qed
qed



lemma scan_events_no_start:
  "\<forall>ev \<in> set evs. \<not> is_start_event ev \<Longrightarrow> scan_events el evs st acc = Inr (st', out) \<Longrightarrow>
     st' = st"
proof (induction evs arbitrary: acc)
  case Nil
  then show ?case by simp
next
  case (Cons e evs)
  from Cons.prems(1) have ne: "findtext e ''EventConcept'' \<noteq> Some ''Recording Start Time''"
    by (simp add: is_start_event_def)
  from Cons.prems(2) ne obtain acc1 where "scan_events el evs st acc1 = Inr (st', out)"
    by (auto split: sum.splits if_splits)
  with Cons.IH Cons.prems(1) show ?case by simp
qed

lemma start_time_well_formed:
  "is_start_event ev \<Longrightarrow> well_formed_event el ev \<Longrightarrow> \<exists>t. event_start_time ev = Inr t"
  by (auto simp add: well_formed_event_def event_start_time_def split: list.splits)
    (metis sum.collapse(2))

lemma epochs_well_formed:
  "is_staging_event ev \<Longrightarrow> well_formed_event el ev \<Longrightarrow> \<exists>new. event_epochs el ev = Inr new"
  by (auto simp add: well_formed_event_def event_epochs_def Let_def split: sum.splits)

lemma scan_events_well_formed:
  "list_all (well_formed_event el) evs \<Longrightarrow>
     \<exists>st' out. scan_events el evs st acc = Inr (st', out)
       \<and> (list_ex is_start_event evs \<or> st \<noteq> None \<longrightarrow> st' \<noteq> None)"
proof (induction evs arbitrary: st acc)
  case Nil
  then show ?case by simp
next
  case (Cons e evs)
  from Cons.prems have wf: "well_formed_event el e" and rest: "list_all (well_formed_event el) evs"
    by simp_all
  have "\<exists>st1. (if findtext e ''EventConcept'' = Some ''Recording Start Time''
            then map_sum id Some (event_start_time e) else Inr st) = Inr st1
          \<and> (is_start_event e \<or> st \<noteq> None \<longrightarrow> st1 \<noteq> None)"
  proof (cases "is_start_event e")
    case True
    from start_time_well_formed [OF True wf] obtain t where "event_start_time e = Inr t" ..
    with True show ?thesis by (simp add: is_start_event_def)
  next
    case False
    then show ?thesis by (simp add: is_start_event_def)
  qed
  then obtain st1 where st1: "(if findtext e ''EventConcept'' = Some ''Recording Start Time''
            then map_sum id Some (event_start_time e) else Inr st) = Inr st1"
    and st1_some: "is_start_event e \<or> st \<noteq> None \<longrightarrow> st1 \<noteq> None"
    by blast
  have "\<exists>acc1. scan_events el (e # evs) st acc = scan_events el evs st1 acc1"
  proof (cases "is_staging_event e")
    case True
    from epochs_well_formed [OF True wf] obtain new where "event_epochs el e = Inr new" ..
    with True st1 have "scan_events el (e # evs) st acc = scan_events el evs st1 (acc @ new)"
      by (simp add: is_staging_event_def)
    then show ?thesis by blast
  next
    case False
    with st1 have "scan_events el (e # evs) st acc = scan_events el evs st1 acc"
      by (simp add: is_staging_event_def)
    then show ?thesis by blast
  qed
  then obtain acc1 where step: "scan_events el (e # evs) st acc = scan_events el evs st1 acc1" ..
  from Cons.IH [OF rest, of st1 acc1] st1_some step show ?case by auto
qed

lemma scan_events_start_time:
  "scan_events el evs st acc = Inr (Some t, out) \<Longrightarrow>
     st = Some t \<or> (\<exists>ev \<in> set evs. is_start_event ev \<and> event_start_time ev = Inr t)"
proof (induction evs arbitrary: st acc)
  case Nil
  then show ?case by simp
next
  case (Cons e evs)
  from Cons.prems obtain st1 acc1 where
    s1: "(if findtext e ''EventConcept'' = Some ''Recording Start Time''
          then map_sum id Some (event_start_time e) else Inr st) = Inr st1" and
    r: "scan_events el evs st1 acc1 = Inr (Some t, out)"
    by (auto split: sum.splits if_splits)
  from Cons.IH [OF r] show ?case
  proof
    assume "st1 = Some t"
    with s1 show ?thesis
      by (cases "is_start_event e"; cases "event_start_time e")
        (auto simp add: is_start_event_def)
  next
    assume "\<exists>ev \<in> set evs. is_start_event ev \<and> event_start_time ev = Inr t"
    then show ?thesis by auto
  qed
qed

lemma parse_scan:
  "parse_nsrr_xml root_el = Inr res \<Longrightarrow>
     scan_events (parsed_sleep_stage_duration res) (scored_events_of root_el) None [] =
       Inr (Some (parsed_recording_start_time res), parsed_sleep_stages res)"
  by (auto simp add: parse_nsrr_xml_def scored_events_of_def
        split: option.splits sum.splits list.splits)

lemma parse_fields:
  "parse_nsrr_xml root_el = Inr res \<Longrightarrow>
     \<exists>s se. findtext root_el ''EpochLength'' = Some s
       \<and> py_int s = Inr (parsed_sleep_stage_duration res)
       \<and> find_desc ''ScoredEvent'' root_el = Some se
       \<and> py_float (findtext_desc_default se ''Duration'' []) = Inr (parsed_recording_duration res)"
  by (auto simp add: parse_nsrr_xml_def split: option.splits sum.splits list.splits)

lemma parse_stage_sequence:
  "parse_nsrr_xml root_el = Inr res \<Longrightarrow>
     parsed_sleep_stages res = spec_stage_sequence (parsed_sleep_stage_duration res) root_el"
  using scan_events_stages [OF parse_scan] by (simp add: spec_stage_sequence_def)

lemma parse_scan_error:
  "isl (scan_events el (scored_events_of root_el) None []) \<Longrightarrow>
   findtext root_el ''EpochLength'' = Some s \<Longrightarrow> py_int s = Inr el \<Longrightarrow>
     isl (parse_nsrr_xml root_el)"
  by (auto simp add: parse_nsrr_xml_def scored_events_of_def
        split: option.splits sum.splits list.splits)


lemma parse_no_start_event:
  assumes "\<forall>ev \<in> set (scored_events_of root_el). \<not> is_start_event ev"
  shows "isl (parse_nsrr_xml root_el)"
proof (cases "parse_nsrr_xml root_el")
  case (Inl e)
  then show ?thesis by simp
next
  case (Inr res)
  from scan_events_no_start [OF assms parse_scan [OF Inr]] show ?thesis by simp
qed

lemma parse_no_epoch_length:
  "findtext root_el ''EpochLength'' = None \<Longrightarrow> parse_nsrr_xml root_el = Inl RuntimeError"
  by (simp add: parse_nsrr_xml_def)

lemma parse_no_scored_event:
  "find_desc ''ScoredEvent'' root_el = None \<Longrightarrow> isl (parse_nsrr_xml root_el)"
  by (simp add: parse_nsrr_xml_def split: option.splits sum.splits)

lemma py_float_empty: "py_float [] = Inl ValueError"
  by (simp add: py_eval)

lemma parse_no_duration:
  "find_desc ''ScoredEvent'' root_el = Some se \<Longrightarrow> find_desc ''Duration'' se = None \<Longrightarrow>
     isl (parse_nsrr_xml root_el)"
  by (simp add: parse_nsrr_xml_def findtext_desc_default_def py_float_empty
        split: option.splits sum.splits)

lemma not_isl_Inr: "\<not> isl x \<Longrightarrow> \<exists>y. x = Inr y"
  by (cases x) simp_all

lemma parse_well_formed:
  assumes "well_formed_annotation root_el"
  shows "\<exists>res. parse_nsrr_xml root_el = Inr res"
proof -
  from assms obtain s where s: "findtext root_el ''EpochLength'' = Some s"
    by (auto simp add: well_formed_annotation_def split: option.splits)
  from assms s obtain el where el: "py_int s = Inr el"
    by (auto simp add: well_formed_annotation_def split: sum.splits)
  from assms s el obtain se where se: "find_desc ''ScoredEvent'' root_el = Some se"
    and nd: "\<not> isl (py_float (findtext_desc_default se ''Duration'' []))"
    and ne: "filter (\<lambda>c. tag c = ''ScoredEvents'') (children root_el) \<noteq> []"
    and wf: "list_all (well_formed_event el) (scored_events_of root_el)"
    and ex: "list_ex is_start_event (scored_events_of root_el)"
    by (auto simp add: well_formed_annotation_def split: option.splits)
  from not_isl_Inr [OF nd] obtain d where
    d: "py_float (findtext_desc_default se ''Duration'' []) = Inr d" ..
  from ne obtain ses rest where
    ses: "filter (\<lambda>c. tag c = ''ScoredEvents'') (children root_el) = ses # rest"
    by (cases "filter (\<lambda>c. tag c = ''ScoredEvents'') (children root_el)") auto
  from scan_events_well_formed [OF wf, of None "[]"] ex obtain st out where
    "scan_events el (scored_events_of root_el) None [] = Inr (Some st, out)"
    by auto
  with s el se d ses show ?thesis
    by (simp add: parse_nsrr_xml_def scored_events_of_def)
qed

lemmas xml_eval =
  parse_nsrr_xml_def findtext_def find_child_def findtext_default_def findtext_desc_default_def
  event_start_time_def event_epochs_def strptime_HMS_def two_digits_def STAGE_MAPPING_def
  int_of_float_def scored_events_of_def is_staging_event_def is_start_event_def

lemma scenario1_parsed:
  "parse_nsrr_xml scenario1 =
     Inr \<lparr>parsed_sleep_stages = [N2, N2], parsed_sleep_stage_duration = 30,
          parsed_recording_start_time = \<lparr>hour = 22, minute = 30, second = 0\<rparr>,
          parsed_recording_duration = 60\<rparr>"
  by (simp add: scenario1_def start_event_def stage2_event_def xml_eval py_eval
        numeral_2_eq_2)

lemma scenario1_well_formed: "well_formed_annotation scenario1"
  by (simp add: well_formed_annotation_def well_formed_event_def scenario1_def start_event_def
        stage2_event_def xml_eval py_eval)




text \<open>
  C9, as the code has it. The parser fails when the epoch length is absent (with the
  \<open>RuntimeError\<close> of line 145), when no \<open>ScoredEvent\<close> carries the recording duration (none
  at all, or the first one without a \<open>Duration\<close>), and when the event stream has no
  "Recording Start Time" event. On an annotation in which these three parts and every
  staging event are well-formed it returns the stage sequence, the epoch length, the
  start time of a start event and the recording duration.
\<close>

theorem parser_requires_three_fields:
  "(findtext root_el ''EpochLength'' = None \<longrightarrow> parse_nsrr_xml root_el = Inl RuntimeError)
   \<and> (find_desc ''ScoredEvent'' root_el = None \<longrightarrow> isl (parse_nsrr_xml root_el))
   \<and> (find_desc ''ScoredEvent'' root_el = Some se \<and> find_desc ''Duration'' se = None \<longrightarrow>
        isl (parse_nsrr_xml root_el))
   \<and> ((\<forall>ev \<in> set (scored_events_of root_el). \<not> is_start_event ev) \<longrightarrow>
        isl (parse_nsrr_xml root_el))
   \<and> (well_formed_annotation root_el \<longrightarrow>
        (\<exists>res s scored_event ev.
           parse_nsrr_xml root_el = Inr res
           \<and> parsed_sleep_stages res = spec_stage_sequence (parsed_sleep_stage_duration res) root_el
           \<and> findtext root_el ''EpochLength'' = Some s
           \<and> py_int s = Inr (parsed_sleep_stage_duration res)
           \<and> find_desc ''ScoredEvent'' root_el = Some scored_event
           \<and> py_float (findtext_desc_default scored_event ''Duration'' [])
               = Inr (parsed_recording_duration res)
           \<and> ev \<in> set (scored_events_of root_el) \<and> is_start_event ev
           \<and> event_start_time ev = Inr (parsed_recording_start_time res)))"
proof (intro conjI impI)
  assume "findtext root_el ''EpochLength'' = None"
  then show "parse_nsrr_xml root_el = Inl RuntimeError" by (rule parse_no_epoch_length)
next
  assume "find_desc ''ScoredEvent'' root_el = None"
  then show "isl (parse_nsrr_xml root_el)" by (rule parse_no_scored_event)
next
  assume "find_desc ''ScoredEvent'' root_el = Some se \<and> find_desc ''Duration'' se = None"
  then show "isl (parse_nsrr_xml root_el)" using parse_no_duration by blast
next
  assume "\<forall>ev \<in> set (scored_events_of root_el). \<not> is_start_event ev"
  then show "isl (parse_nsrr_xml root_el)" by (rule parse_no_start_event)
next
  assume "well_formed_annotation root_el"
  from parse_well_formed [OF this] obtain res where res: "parse_nsrr_xml root_el = Inr res" ..
  from parse_fields [OF res] obtain s scored_event where
    f: "findtext root_el ''EpochLength'' = Some s"
       "py_int s = Inr (parsed_sleep_stage_duration res)"
       "find_desc ''ScoredEvent'' root_el = Some scored_event"
       "py_float (findtext_desc_default scored_event ''Duration'' [])
          = Inr (parsed_recording_duration res)"
    by blast
  from scan_events_start_time [OF parse_scan [OF res]] obtain ev where
    e: "ev \<in> set (scored_events_of root_el)" "is_start_event ev"
       "event_start_time ev = Inr (parsed_recording_start_time res)"
    by auto
  from res parse_stage_sequence [OF res] f e
  show "\<exists>res s scored_event ev.
           parse_nsrr_xml root_el = Inr res
           \<and> parsed_sleep_stages res = spec_stage_sequence (parsed_sleep_stage_duration res) root_el
           \<and> findtext root_el ''EpochLength'' = Some s
           \<and> py_int s = Inr (parsed_sleep_stage_duration res)
           \<and> find_desc ''ScoredEvent'' root_el = Some scored_event
           \<and> py_float (findtext_desc_default scored_event ''Duration'' [])
               = Inr (parsed_recording_duration res)
           \<and> ev \<in> set (scored_events_of root_el) \<and> is_start_event ev
           \<and> event_start_time ev = Inr (parsed_recording_start_time res)"
    by blast
qed

lemma missing_parts_hypotheses:
  "findtext no_epoch_length_doc ''EpochLength'' = None
   \<and> find_desc ''ScoredEvent'' no_scored_event_doc = None
   \<and> find_desc ''Duration'' (the (find_desc ''ScoredEvent'' no_duration_doc)) = None
   \<and> find_desc ''ScoredEvent'' no_duration_doc \<noteq> None
   \<and> list_all (\<lambda>ev. \<not> is_start_event ev) (scored_events_of no_start_time_doc)"
  by (simp add: no_epoch_length_doc_def no_scored_event_doc_def no_duration_doc_def
        no_start_time_doc_def start_event_def stage2_event_def xml_eval)

theorem parser_requires_three_fields_witness:
  "parse_nsrr_xml no_epoch_length_doc = Inl RuntimeError
   \<and> isl (parse_nsrr_xml no_scored_event_doc)
   \<and> isl (parse_nsrr_xml no_duration_doc)
   \<and> isl (parse_nsrr_xml no_start_time_doc)
   \<and> well_formed_annotation scenario1
   \<and> parse_nsrr_xml scenario1 =
       Inr \<lparr>parsed_sleep_stages = [N2, N2], parsed_sleep_stage_duration = 30,
            parsed_recording_start_time = \<lparr>hour = 22, minute = 30, second = 0\<rparr>,
            parsed_recording_duration = 60\<rparr>"
  using missing_parts_hypotheses scenario1_well_formed scenario1_parsed
    parser_requires_three_fields [of no_epoch_length_doc]
    parser_requires_three_fields [of no_scored_event_doc]
    parser_requires_three_fields [of no_duration_doc "the (find_desc ''ScoredEvent'' no_duration_doc)"]
    parser_requires_three_fields [of no_start_time_doc]
    parser_requires_three_fields [of scenario1]
  by (auto simp add: list_all_iff)

text \<open>
  The success half of C9 needs more than the three parts: here the epoch length, the
  recording duration and the start event are present and parse, and the parser fails on
  the label of a staging event.
\<close>

theorem three_fields_do_not_suffice:
  "findtext unknown_label_doc ''EpochLength'' = Some ''30''
   \<and> py_int ''30'' = Inr 30
   \<and> find_desc ''ScoredEvent'' unknown_label_doc = Some start_event
   \<and> py_float (findtext_desc_default start_event ''Duration'' []) = Inr 60
   \<and> is_start_event start_event
   \<and> event_start_time start_event = Inr \<lparr>hour = 22, minute = 30, second = 0\<rparr>
   \<and> parse_nsrr_xml unknown_label_doc = Inl KeyError"
  by (simp add: unknown_label_doc_def unknown_stage_event_def start_event_def xml_eval py_eval)

section \<open>Subject metadata\<close>

lemma shhs_gender_unmapped:
  "row ''gender'' = Some (Some code) \<Longrightarrow> GENDER_MAPPING_shhs code = None \<Longrightarrow>
     shhs_gender row = Inr None"
  by (simp add: shhs_gender_def row_get_def)

lemma shhs_age_blank: "row k = Some (Some []) \<Longrightarrow> shhs_age row k = Inr None"
  by (simp add: shhs_age_def row_get_def)

lemma shhs_weight_blank: "row ''weight'' = Some (Some []) \<Longrightarrow> shhs_weight row = Inr None"
  by (simp add: shhs_weight_def row_get_def)

lemma slpdb_number_x: "slpdb_number ''x'' = Inr None"
  by (simp add: slpdb_number_def)

text \<open>
  C6, as the code has it. In \<open>read_shhs\<close> a gender code outside the mapping table resolves
  to \<open>None\<close> without an error and a blank age or weight resolves to \<open>None\<close>; in \<open>read_slpdb\<close> an
  age or weight equal to the marker \<open>x\<close> resolves to \<open>None\<close>. None of them becomes 0.
\<close>

theorem absent_metadata_resolves_to_None:
  "(row ''nsrrid'' = Some n \<and> row ''gender'' = Some (Some code)
      \<and> GENDER_MAPPING_shhs code = None
      \<and> row ''age_s1'' = Some (Some []) \<and> row ''weight'' = Some (Some []) \<longrightarrow>
      shhs1_subject_row row
        = Inr (''shhs1-'' @ str_of_cell n, \<lparr>gender = None, age = None, weight = None\<rparr>))
   \<and> (row ''nsrrid'' = Some n \<and> row ''gender'' = Some (Some code)
      \<and> GENDER_MAPPING_shhs code = None \<and> row ''age_s2'' = Some (Some []) \<longrightarrow>
      shhs2_subject_row row
        = Inr (''shhs2-'' @ str_of_cell n, \<lparr>gender = None, age = None, weight = None\<rparr>))
   \<and> (row ''gender'' = Some (Some code) \<and> GENDER_MAPPING_shhs code = None \<longrightarrow>
      shhs_gender row = Inr None)
   \<and> (row k = Some (Some []) \<longrightarrow> shhs_age row k = Inr None)
   \<and> (row ''weight'' = Some (Some []) \<longrightarrow> shhs_weight row = Inr None)
   \<and> (py_split line = [''x'', g, ''x'', u] \<longrightarrow>
      slpdb_subject_data (line # rest)
        = Inr \<lparr>gender = Some MALE, age = None, weight = None\<rparr>)
   \<and> slpdb_number ''x'' = Inr None"
  by (simp add: shhs1_subject_row_def shhs2_subject_row_def shhs_gender_unmapped
        shhs_age_blank shhs_weight_blank slpdb_subject_data_def slpdb_number_x row_get_def)

lemma blank_shhs_row_fields:
  "blank_shhs_row ''nsrrid'' = Some (Some ''200001'')
   \<and> blank_shhs_row ''gender'' = Some (Some ''9'')
   \<and> GENDER_MAPPING_shhs ''9'' = None
   \<and> blank_shhs_row ''age_s1'' = Some (Some [])
   \<and> blank_shhs_row ''age_s2'' = Some (Some [])
   \<and> blank_shhs_row ''weight'' = Some (Some [])
   \<and> py_split unknown_slpdb_comment = [''x'', ''M'', ''x'', ''32-01-89'']"
  by (simp add: blank_shhs_row_def GENDER_MAPPING_shhs_def unknown_slpdb_comment_def py_eval)

theorem absent_metadata_resolves_to_None_witness:
  "shhs1_subject_row blank_shhs_row
     = Inr (''shhs1-200001'', \<lparr>gender = None, age = None, weight = None\<rparr>)
   \<and> shhs2_subject_row blank_shhs_row
     = Inr (''shhs2-200001'', \<lparr>gender = None, age = None, weight = None\<rparr>)
   \<and> shhs_gender blank_shhs_row = Inr None
   \<and> shhs_age blank_shhs_row ''age_s1'' = Inr None
   \<and> shhs_weight blank_shhs_row = Inr None
   \<and> slpdb_subject_data [unknown_slpdb_comment]
     = Inr \<lparr>gender = Some MALE, age = None, weight = None\<rparr>"
  using blank_shhs_row_fields
    absent_metadata_resolves_to_None [of blank_shhs_row "Some ''200001''" "''9''" "''age_s1''"
      unknown_slpdb_comment "''M''" "''32-01-89''" "[]"]
  by (simp add: str_of_cell_def)

text \<open>
  The claim as stated fails: \<open>read_mesa\<close> looks the gender code up with
  \<open>GENDER_MAPPING[gender]\<close>, and \<open>read_shhs\<close> passes the marker \<open>x\<close> to \<open>int\<close>.
\<close>

theorem unmapped_gender_or_marker_raises:
  "mesa_subject_row (1, 2, 70) = Inl KeyError
   \<and> shhs1_subject_row x_age_shhs_row = Inl ValueError"
  by (simp add: mesa_subject_row_def GENDER_MAPPING_mesa_def shhs1_subject_row_def
        x_age_shhs_row_def row_get_def shhs_gender_def GENDER_MAPPING_shhs_def shhs_age_def
        py_eval)

section \<open>Files across one pass of the loop\<close>

lemmas path_defs =
  heartbeats_file_of_def rpoints_filename_of_def edf_filename_of_def xml_filename_of_def
  activity_filename_of_def activity_counts_file_of_def ANNOTATION_DIRNAME_def EDF_DIRNAME_def
  ACTIVITY_DIRNAME_def HEARTBEATS_DIRNAME_def ACTIVITY_COUNTS_DIRNAME_def RPOINTS_DIRNAME_def

lemma edf_path_distinct:
  "edf_filename_of r \<noteq> heartbeats_file_of r'"
  "edf_filename_of r \<noteq> xml_filename_of r'"
  "edf_filename_of r \<noteq> activity_filename_of r'"
  "edf_filename_of r \<noteq> activity_counts_file_of r'"
  "edf_filename_of r \<noteq> rpoints_filename_of r'"
  by (simp_all add: path_defs)

lemma download_keeps_files:
  "download_nsrr_file w f = Inr w' \<Longrightarrow> files w p \<noteq> None \<Longrightarrow> files w' p \<noteq> None"
  by (auto simp add: download_nsrr_file_def split: option.splits)

lemma download_listed_keeps_files:
  "download_listed cs w f = Inr w' \<Longrightarrow> files w p \<noteq> None \<Longrightarrow> files w' p \<noteq> None"
  by (auto simp add: download_listed_def dest: download_keeps_files split: if_splits)

lemma download_listed_other:
  "download_listed cs w f = Inr w' \<Longrightarrow> p \<noteq> f \<Longrightarrow> files w' p = files w p"
  by (auto simp add: download_listed_def download_nsrr_file_def split: if_splits option.splits)

lemma np_save_keeps_files: "files w p \<noteq> None \<Longrightarrow> files (np_save w q a) p \<noteq> None"
  by (simp add: np_save_def)

lemma ensure_rpoints_keeps_files:
  "files w p \<noteq> None \<Longrightarrow> files (snd (ensure_rpoints env w f)) p \<noteq> None"
  by (auto simp add: ensure_rpoints_def dest: download_keeps_files split: sum.splits)

lemma ecg_keeps_files:
  "files w p \<noteq> None \<Longrightarrow> files (snd (ecg_heartbeats d label env w r)) p \<noteq> None"
proof -
  assume p: "files w p \<noteq> None"
  show ?thesis
  proof (cases "offline (env_args env)")
    case True
    with p show ?thesis
      by (auto simp add: ecg_heartbeats_def Let_def unlink_def np_save_def
            split: sum.splits option.splits prod.splits)
  next
    case False
    show ?thesis
    proof (cases "download_listed (env_checksums env) w (edf_filename_of r)")
      case (Inl e)
      with False p show ?thesis by (simp add: ecg_heartbeats_def Let_def)
    next
      case (Inr w1)
      from download_listed_keeps_files [OF Inr p] have p1: "files w1 p \<noteq> None" .
      from Inr False p p1 show ?thesis
        by (auto simp add: ecg_heartbeats_def Let_def unlink_def np_save_def
              split: sum.splits option.splits prod.splits)
    qed
  qed
qed

lemma mesa_heartbeats_keeps_files:
  "files w p \<noteq> None \<Longrightarrow> files (snd (mesa_heartbeats d env hb w r)) p \<noteq> None"
  using ensure_rpoints_keeps_files [of w p env "rpoints_filename_of r"] ecg_keeps_files [of w p d _ env r]
  by (auto simp add: mesa_heartbeats_def split: prod.splits step.splits sum.splits)

lemma shhs_heartbeats_keeps_files:
  "files w p \<noteq> None \<Longrightarrow> files (snd (shhs_heartbeats d env hb w r)) p \<noteq> None"
  using ensure_rpoints_keeps_files [of w p env "rpoints_filename_of r"] ecg_keeps_files [of w p d _ env r]
  by (auto simp add: shhs_heartbeats_def split: prod.splits step.splits sum.splits)

lemma fetch_and_parse_keeps_files:
  "files w p \<noteq> None \<Longrightarrow> files (snd (fetch_and_parse env w r)) p \<noteq> None"
  by (auto simp add: fetch_and_parse_def dest: download_listed_keeps_files split: sum.splits)

lemma mesa_actigraphy_keeps_files:
  "files w p \<noteq> None \<Longrightarrow> files (snd (mesa_actigraphy env w r px)) p \<noteq> None"
  by (auto simp add: mesa_actigraphy_def np_save_def dest: download_listed_keeps_files
        split: sum.splits option.splits step.splits)

lemma mesa_activity_keeps_files:
  "files w p \<noteq> None \<Longrightarrow> files (snd (mesa_activity env w r px)) p \<noteq> None"
  using mesa_actigraphy_keeps_files [of w p env r px]
  by (auto simp add: mesa_activity_def split: sum.splits option.splits)

lemma mesa_record_keeps_files:
  assumes "files w p \<noteq> None"
  shows "files (snd (snd (mesa_record d env hb w r))) p \<noteq> None"
proof -
  obtain s1 w1 where h: "mesa_heartbeats d env hb w r = (s1, w1)" by force
  from mesa_heartbeats_keeps_files [OF assms, of d env hb r] h have p1: "files w1 p \<noteq> None" by simp
  obtain s2 w2 where f: "fetch_and_parse env w1 r = (s2, w2)" by force
  from fetch_and_parse_keeps_files [OF p1, of env r] f have p2: "files w2 p \<noteq> None" by simp
  show ?thesis
  proof (cases s1)
    case (Ok hb1)
    show ?thesis
    proof (cases s2)
      case (Inl e)
      with h f Ok p2 show ?thesis by (simp add: mesa_record_def)
    next
      case (Inr px)
      obtain s3 w3 where a: "mesa_activity env w2 r px = (s3, w3)" by force
      from mesa_activity_keeps_files [OF p2, of env r px] a have "files w3 p \<noteq> None" by simp
      with h f Ok Inr a show ?thesis by (cases s3) (simp_all add: mesa_record_def)
    qed
  next
    case (Skip x)
    with h p1 show ?thesis by (simp add: mesa_record_def)
  next
    case (Raise e)
    with h p1 show ?thesis by (simp add: mesa_record_def)
  qed
qed

lemma shhs_record_keeps_files:
  assumes "files w p \<noteq> None"
  shows "files (snd (snd (shhs_record d env hb w r))) p \<noteq> None"
proof -
  obtain s1 w1 where h: "shhs_heartbeats d env hb w r = (s1, w1)" by force
  from shhs_heartbeats_keeps_files [OF assms, of d env hb r] h have p1: "files w1 p \<noteq> None" by simp
  obtain s2 w2 where f: "fetch_and_parse env w1 r = (s2, w2)" by force
  from fetch_and_parse_keeps_files [OF p1, of env r] f have p2: "files w2 p \<noteq> None" by simp
  from h f p1 p2 show ?thesis
    by (cases s1; cases s2) (simp_all add: shhs_record_def)
qed

lemma read_edf_signal_present:
  "read_edf_signal w p label = Inr sig \<Longrightarrow> files w p \<noteq> None"
  by (auto simp add: read_edf_signal_def split: option.splits)

lemma ecg_edf_deleted_iff:
  assumes "ecg_heartbeats d label env w r = (Ok t, w')"
  shows "(files w' (edf_filename_of r) = None)
           = (files w (edf_filename_of r) = None \<and> \<not> keep_edfs (env_args env))"
proof -
  define w1 where "w1 = (if \<not> offline (env_args env)
       then download_listed (env_checksums env) w (edf_filename_of r) else Inr w)"
  from assms obtain w1' where w1': "w1 = Inr w1'"
    by (cases w1) (auto simp add: ecg_heartbeats_def Let_def w1_def)
  from assms w1' obtain data fs where
    sig: "read_edf_signal w1' (edf_filename_of r) label = Inr (data, fs)"
    by (cases "read_edf_signal w1' (edf_filename_of r) label")
      (auto simp add: ecg_heartbeats_def Let_def w1_def)
  from read_edf_signal_present [OF sig] have present: "files w1' (edf_filename_of r) \<noteq> None" .
  from assms w1' sig present show ?thesis
    by (auto simp add: ecg_heartbeats_def Let_def w1_def unlink_def np_save_def
          edf_path_distinct split: if_splits option.splits)
qed

lemma fetch_and_parse_other:
  "p \<noteq> xml_filename_of r \<Longrightarrow> files (snd (fetch_and_parse env w r)) p = files w p"
  by (auto simp add: fetch_and_parse_def dest: download_listed_other split: sum.splits)

lemma mesa_actigraphy_other:
  "p \<noteq> activity_filename_of r \<Longrightarrow> p \<noteq> activity_counts_file_of r \<Longrightarrow>
     files (snd (mesa_actigraphy env w r px)) p = files w p"
  by (auto simp add: mesa_actigraphy_def np_save_def dest: download_listed_other
        split: sum.splits option.splits step.splits)

lemma mesa_activity_other:
  "p \<noteq> activity_filename_of r \<Longrightarrow> p \<noteq> activity_counts_file_of r \<Longrightarrow>
     files (snd (mesa_activity env w r px)) p = files w p"
  using mesa_actigraphy_other [of p r env w px]
  by (auto simp add: mesa_activity_def split: sum.splits option.splits)

lemma mesa_record_yield_parts:
  assumes "mesa_record d env hb w r = (Ok rec, hb', w')"
  shows "\<exists>hb1 w1 px w2 act.
           mesa_heartbeats d env hb w r = (Ok hb1, w1)
           \<and> fetch_and_parse env w1 r = (Inr px, w2)
           \<and> mesa_activity env w2 r px = (Ok act, w')
           \<and> make_record env px r hb1 act = Ok rec \<and> hb' = hb1"
  using assms
  by (auto simp add: mesa_record_def split: prod.splits step.splits sum.splits)

lemma shhs_record_yield_parts:
  assumes "shhs_record d env hb w r = (Ok rec, hb', w')"
  shows "\<exists>hb1 w1 px.
           shhs_heartbeats d env hb w r = (Ok hb1, w1)
           \<and> fetch_and_parse env w1 r = (Inr px, w')
           \<and> make_record env px (drop 6 r) hb1 None = Ok rec \<and> hb' = hb1"
  using assms
  by (auto simp add: shhs_record_def split: prod.splits step.splits sum.splits)

lemma mesa_record_edf_deleted_iff:
  assumes "heartbeats_source (env_args env) = ''ecg''"
    and "mesa_record d env hb w r = (Ok rec, hb', w')"
  shows "(files w' (edf_filename_of r) = None)
           = (files w (edf_filename_of r) = None \<and> \<not> keep_edfs (env_args env))"
proof -
  from mesa_record_yield_parts [OF assms(2)] obtain hb1 w1 px w2 act where
    h: "mesa_heartbeats d env hb w r = (Ok hb1, w1)" and
    f: "fetch_and_parse env w1 r = (Inr px, w2)" and
    a: "mesa_activity env w2 r px = (Ok act, w')"
    by blast
  from h assms(1) have "ecg_heartbeats d ''EKG'' env w r = (Ok hb1, w1)"
    by (simp add: mesa_heartbeats_def)
  from ecg_edf_deleted_iff [OF this] have
    "(files w1 (edf_filename_of r) = None)
       = (files w (edf_filename_of r) = None \<and> \<not> keep_edfs (env_args env))" .
  moreover from fetch_and_parse_other [of "edf_filename_of r" r env w1] f
  have "files w2 (edf_filename_of r) = files w1 (edf_filename_of r)"
    by (simp add: edf_path_distinct)
  moreover from mesa_activity_other [of "edf_filename_of r" r env w2 px] a
  have "files w' (edf_filename_of r) = files w2 (edf_filename_of r)"
    by (simp add: edf_path_distinct)
  ultimately show ?thesis by simp
qed

lemma shhs_record_edf_deleted_iff:
  assumes "heartbeats_source (env_args env) = ''ecg''"
    and "shhs_record d env hb w r = (Ok rec, hb', w')"
  shows "(files w' (edf_filename_of r) = None)
           = (files w (edf_filename_of r) = None \<and> \<not> keep_edfs (env_args env))"
proof -
  from shhs_record_yield_parts [OF assms(2)] obtain hb1 w1 px where
    h: "shhs_heartbeats d env hb w r = (Ok hb1, w1)" and
    f: "fetch_and_parse env w1 r = (Inr px, w')"
    by blast
  from h assms(1) have "ecg_heartbeats d ''ECG'' env w r = (Ok hb1, w1)"
    by (simp add: shhs_heartbeats_def)
  from ecg_edf_deleted_iff [OF this] have
    "(files w1 (edf_filename_of r) = None)
       = (files w (edf_filename_of r) = None \<and> \<not> keep_edfs (env_args env))" .
  moreover from fetch_and_parse_other [of "edf_filename_of r" r env w1] f
  have "files w' (edf_filename_of r) = files w1 (edf_filename_of r)"
    by (simp add: edf_path_distinct)
  ultimately show ?thesis by simp
qed

section \<open>Skips and failures of one record\<close>



lemma run_records_yield:
  "body env hb w r = (Ok rec, hb', w') \<Longrightarrow>
     run_records body env (r # rs) hb w = (Inr rec, Suspended env rs hb', w')"
  by simp









lemma fetch_and_parse_offline:
  "offline (env_args env) \<Longrightarrow> files w (xml_filename_of r) = Some (XmlFile root_el) \<Longrightarrow>
     fetch_and_parse env w r = (parse_nsrr_xml root_el, w)"
  by (simp add: fetch_and_parse_def ElementTree_parse_def)


lemma mesa_activity_missing_overlap:
  "activity_source (env_args env) = Some ''actigraphy'' \<Longrightarrow>
   mesaid_of r = Inr mesaid \<Longrightarrow> env_overlap_data env mesaid = None \<Longrightarrow>
     mesa_activity env w r px = (Skip MissingOverlapData, w)"
  by (simp add: mesa_activity_def mesa_actigraphy_def)

lemma align_activity_missing_line:
  "recording_end_time_str day (parsed_recording_start_time px) (parsed_recording_duration px)
     = Inr label \<Longrightarrow>
   find_end_line activity_data label = None \<Longrightarrow>
     align_activity day px overlap_line activity_data = Skip MissingLine"
  by (simp add: align_activity_def)

lemma align_activity_length_mismatch:
  "recording_end_time_str day (parsed_recording_start_time px) (parsed_recording_duration px)
     = Inr label \<Longrightarrow>
   find_end_line activity_data label = Some (Inr end_line) \<Longrightarrow>
   activity_column (py_slice activity_data (overlap_line + 1) end_line) = Inr candidate \<Longrightarrow>
   2 < \<bar>int (length candidate) - int (length (parsed_sleep_stages px))\<bar> \<Longrightarrow>
     align_activity day px overlap_line activity_data = Skip InvalidActivityCounts"
  by (simp add: align_activity_def reconcile_length_def)


section \<open>The examples, evaluated\<close>

lemma format_04_small: "format_04 1 = ''0001''" "format_04 2 = ''0002''"
  by (simp_all add: format_04_def zero_pad_def nat_digits.simps digit_char_def numeral_3_eq_3)

lemma mesa_subjects_loaded:
  "load_subject_rows mesa_subject_row [(1, 0, 70), (2, 1, 65)] Map.empty = Inr mesa_subjects"
  by (simp add: mesa_subject_row_def GENDER_MAPPING_mesa_def format_04_small mesa_subjects_def)

lemma mesa_prologue_example:
  "hs \<in> set [''annotation'', ''cached'', ''ecg''] \<Longrightarrow>
     mesa_prologue (offline_args hs None) (mesa_inputs rs) = Inr (mesa_env (offline_args hs None), rs)"
  by (simp add: mesa_prologue_def offline_args_def mesa_inputs_def mesa_env_def
        mesa_subject_row_def GENDER_MAPPING_mesa_def format_04_small mesa_subjects_def)

lemma mesa_files_lookup:
  "mesa_files (rpoints_filename_of ''mesa-sleep-0001'') = Some (RpointsCsv (Vector [5, 2, 3]))"
  "mesa_files (xml_filename_of ''mesa-sleep-0001'') = Some (XmlFile no_epoch_length_doc)"
  "mesa_files (rpoints_filename_of ''mesa-sleep-0002'') = Some (RpointsCsv (Vector [5, 2, 3]))"
  "mesa_files (xml_filename_of ''mesa-sleep-0002'') = Some (XmlFile scenario1)"
  "mesa_files (heartbeats_file_of ''mesa-sleep-0002'') = Some (NpyFile (Vector [4, 1]))"
  "mesa_files (rpoints_filename_of ''mesa-sleep-0003'') = None"
  "mesa_files (heartbeats_file_of ''mesa-sleep-0003'') = None"
  "mesa_files (heartbeats_file_of ''mesa-sleep-0001'') = None"
  "mesa_files (activity_counts_file_of ''mesa-sleep-0002'') = None"
  by (simp_all add: mesa_files_def path_defs)

lemma mesa_world_files: "files mesa_world = mesa_files"
  by (simp add: mesa_world_def)

lemma mesa_env_fields:
  "env_args (mesa_env a) = a" "env_checksums (mesa_env a) = []"
  "env_subject_data (mesa_env a) = mesa_subjects"
  "heartbeats_source (offline_args hs act) = hs" "activity_source (offline_args hs act) = act"
  "offline (offline_args hs act)" "\<not> keep_edfs (offline_args hs act)"
  by (simp_all add: mesa_env_def offline_args_def)

lemma mesa_sorted_heartbeats:
  "r \<in> set [''mesa-sleep-0001'', ''mesa-sleep-0002''] \<Longrightarrow>
     mesa_heartbeats d (mesa_env (offline_args ''annotation'' act)) hb mesa_world r
       = (Ok (Some (Vector [2, 3, 5])), mesa_world)"
  by (auto simp add: mesa_heartbeats_def ensure_rpoints_def mesa_env_fields mesa_world_files
        mesa_files_lookup np_loadtxt_def np_sort_def)

lemma mesa_cached_heartbeats:
  "mesa_heartbeats d (mesa_env (offline_args ''cached'' act)) hb mesa_world ''mesa-sleep-0002''
     = (Ok (Some (Vector [4, 1])), mesa_world)"
  by (simp add: mesa_heartbeats_def mesa_env_fields mesa_world_files mesa_files_lookup
        np_load_def)


lemma mesa_fetch_0002:
  "fetch_and_parse (mesa_env (offline_args hs act)) mesa_world ''mesa-sleep-0002''
     = (Inr scenario1_parsed_result, mesa_world)"
  using fetch_and_parse_offline [of "mesa_env (offline_args hs act)" mesa_world
      "''mesa-sleep-0002''" scenario1] scenario1_parsed
  by (simp add: mesa_env_fields mesa_world_files mesa_files_lookup scenario1_parsed_result_def)

lemma mesa_subjects_0002:
  "mesa_subjects ''mesa-sleep-0002'' = Some \<lparr>gender = Some MALE, age = Some 65, weight = None\<rparr>"
  by (simp add: mesa_subjects_def)

lemma mesa_record_0002_annotation:
  "mesa_record d (mesa_env (offline_args ''annotation'' None)) hb mesa_world ''mesa-sleep-0002''
     = (Ok (mesa_record_0002 (Vector [2, 3, 5])), Some (Vector [2, 3, 5]), mesa_world)"
  by (simp add: mesa_record_def mesa_sorted_heartbeats mesa_fetch_0002 mesa_activity_def
        mesa_env_fields make_record_def mesa_subjects_0002 scenario1_parsed_result_def
        mesa_record_0002_def)

lemma mesa_record_0002_cached:
  "mesa_record d (mesa_env (offline_args ''cached'' None)) hb mesa_world ''mesa-sleep-0002''
     = (Ok (mesa_record_0002 (Vector [4, 1])), Some (Vector [4, 1]), mesa_world)"
  by (simp add: mesa_record_def mesa_cached_heartbeats mesa_fetch_0002 mesa_activity_def
        mesa_env_fields make_record_def mesa_subjects_0002 scenario1_parsed_result_def
        mesa_record_0002_def)




section \<open>Option checks and the first step of the generator\<close>

text \<open>
  C3, as the code has it. \<open>read_mesa\<close> and \<open>read_shhs\<close> are generator functions, so a call
  with an invalid \<open>heartbeats_source\<close> (or, for \<open>read_mesa\<close>, \<open>activity_source\<close>) returns a
  generator without raising. The \<open>ValueError\<close> is raised by the first \<open>next()\<close>, before any
  record is yielded and with no file touched, and the generator is then finished.
\<close>

theorem invalid_option_raises_at_first_next:
  "(heartbeats_source a \<notin> set [''annotation'', ''cached'', ''ecg'']
      \<or> activity_source a \<notin> set [None, Some ''cached'', Some ''actigraphy''] \<longrightarrow>
      read_mesa a inp = Inr (Created a inp)
      \<and> mesa_next d (Created a inp) w = (Inl ValueError, Finished, w))
   \<and> (heartbeats_source a \<notin> set [''annotation'', ''cached'', ''ecg''] \<longrightarrow>
      read_shhs a inp' = Inr (Created a inp')
      \<and> shhs_next d (Created a inp') w = (Inl ValueError, Finished, w))"
  by (auto simp add: read_mesa_def read_shhs_def mesa_next_def shhs_next_def gen_next_def
        mesa_prologue_def shhs_prologue_def)

lemma offline_args_fields:
  "heartbeats_source (offline_args hs act) = hs" "activity_source (offline_args hs act) = act"
  by (simp_all add: offline_args_def)

theorem invalid_option_raises_at_first_next_witness:
  "read_mesa (offline_args ''rpoints'' None) (mesa_inputs [''mesa-sleep-0002''])
     = Inr (Created (offline_args ''rpoints'' None) (mesa_inputs [''mesa-sleep-0002'']))
   \<and> mesa_next sample_detector
       (Created (offline_args ''rpoints'' None) (mesa_inputs [''mesa-sleep-0002''])) mesa_world
     = (Inl ValueError, Finished, mesa_world)
   \<and> mesa_next sample_detector
       (Created (offline_args ''annotation'' (Some ''csv'')) (mesa_inputs [''mesa-sleep-0002'']))
       mesa_world
     = (Inl ValueError, Finished, mesa_world)
   \<and> read_shhs (offline_args ''rpoints'' None) shhs_inputs
     = Inr (Created (offline_args ''rpoints'' None) shhs_inputs)
   \<and> shhs_next sample_detector (Created (offline_args ''rpoints'' None) shhs_inputs) shhs_world
     = (Inl ValueError, Finished, shhs_world)"
  using
    invalid_option_raises_at_first_next [of "offline_args ''rpoints'' None"
      "mesa_inputs [''mesa-sleep-0002'']" sample_detector mesa_world shhs_inputs]
    invalid_option_raises_at_first_next [of "offline_args ''annotation'' (Some ''csv'')"
      "mesa_inputs [''mesa-sleep-0002'']" sample_detector mesa_world shhs_inputs]
    invalid_option_raises_at_first_next [of "offline_args ''rpoints'' None"
      "mesa_inputs [''mesa-sleep-0002'']" sample_detector shhs_world shhs_inputs]
  by (simp add: offline_args_fields)

text \<open>
  The claim as stated fails: the call itself does not raise, and the error is raised
  during iteration.
\<close>

theorem invalid_option_call_returns_generator:
  "read_mesa (offline_args ''rpoints'' None) (mesa_inputs [''mesa-sleep-0002''])
     \<noteq> Inl ValueError
   \<and> fst (mesa_next sample_detector
        (Created (offline_args ''rpoints'' None) (mesa_inputs [''mesa-sleep-0002''])) mesa_world)
     = Inl ValueError
   \<and> read_shhs (offline_args ''rpoints'' None) shhs_inputs \<noteq> Inl ValueError
   \<and> fst (shhs_next sample_detector (Created (offline_args ''rpoints'' None) shhs_inputs)
        shhs_world)
     = Inl ValueError"
  by (simp add: read_mesa_def read_shhs_def mesa_next_def shhs_next_def gen_next_def
        mesa_prologue_def shhs_prologue_def offline_args_fields)

section \<open>Order of the heartbeat times\<close>

lemma make_record_heartbeats:
  "make_record env px ident hb act = Ok rec \<Longrightarrow> hb = Some (heartbeat_times rec)"
  by (auto simp add: make_record_def split: option.splits)

lemma mesa_annotation_sorted:
  "heartbeats_source (env_args env) = ''annotation'' \<Longrightarrow>
   mesa_heartbeats d env hb w r = (Ok t, w1) \<Longrightarrow> \<exists>ys. t = Some (Vector (sort ys))"
  by (auto simp add: mesa_heartbeats_def np_sort_def
        split: prod.splits step.splits sum.splits ndarray.splits)

lemma ecg_heartbeats_times:
  "ecg_heartbeats d label env w r = (Ok t, w1) \<Longrightarrow>
     \<exists>data fs. t = Some (Vector (map (\<lambda>i. real i / fs) (d data fs)))"
  by (auto simp add: ecg_heartbeats_def Let_def split: sum.splits if_splits prod.splits)

lemma sorted_divide:
  "sorted xs \<Longrightarrow> 0 < fs \<Longrightarrow> sorted (map (\<lambda>i. real i / fs) xs)"
  by (induction xs) (auto simp add: divide_right_mono)

lemma shhs_annotation_as_loaded:
  "heartbeats_source (env_args env) = ''annotation'' \<Longrightarrow>
   files w (rpoints_filename_of r) = Some (RpointsCsv a) \<Longrightarrow>
   shhs_heartbeats d env hb w r = (Ok t, w1) \<Longrightarrow> t = Some a"
  by (auto simp add: shhs_heartbeats_def ensure_rpoints_def np_loadtxt_def)

lemma mesa_cached_as_stored:
  "heartbeats_source (env_args env) = ''cached'' \<Longrightarrow>
   mesa_heartbeats d env hb w r = (Ok t, w1) \<Longrightarrow>
     \<exists>a. t = Some a \<and> files w (heartbeats_file_of r) = Some (NpyFile a)"
  by (auto simp add: mesa_heartbeats_def np_load_def
        split: if_splits sum.splits option.splits file_content.splits)

lemma shhs_world_files: "files shhs_world = shhs_files"
  by (simp add: shhs_world_def)

lemma shhs_env_fields:
  "env_args (shhs_env a) = a" "env_checksums (shhs_env a) = []"
  "env_subject_data (shhs_env a) = shhs_subjects"
  by (simp_all add: shhs_env_def)

lemma shhs_files_lookup:
  "shhs_files (rpoints_filename_of ''shhs1/shhs1-200001'') = Some (RpointsCsv (Vector [5, 2, 3]))"
  "shhs_files (xml_filename_of ''shhs1/shhs1-200001'') = Some (XmlFile scenario1)"
  "shhs_files (edf_filename_of ''shhs1/shhs1-200001'')
     = Some (EdfFile [(''ECG'', [0, 1, 0, 1, 1], 2)])"
  "shhs_files (heartbeats_file_of ''shhs1/shhs1-200001'') = None"
  by (simp_all add: shhs_files_def path_defs)

lemma shhs_cached_world_files:
  "files shhs_cached_world (heartbeats_file_of ''shhs1/shhs1-200001'')
     = Some (NpyFile (Vector [1 / 2, 3 / 2, 2]))"
  "files shhs_cached_world (xml_filename_of ''shhs1/shhs1-200001'') = Some (XmlFile scenario1)"
  by (simp_all add: shhs_cached_world_def np_save_def shhs_world_files shhs_files_lookup)
    (simp add: path_defs)

lemma shhs_subjects_loaded:
  "shhs1_subject_row shhs_row_200001
     = Inr (''shhs1-200001'', \<lparr>gender = Some MALE, age = Some 55, weight = Some (161 / 2)\<rparr>)"
  by (simp add: shhs1_subject_row_def shhs_row_200001_def row_get_def shhs_gender_def
        GENDER_MAPPING_shhs_def shhs_age_def shhs_weight_def str_of_cell_def py_eval)

lemma shhs_prologue_example:
  "hs \<in> set [''annotation'', ''cached'', ''ecg''] \<Longrightarrow>
     shhs_prologue (offline_args hs None) shhs_inputs
       = Inr (shhs_env (offline_args hs None), [''shhs1/shhs1-200001''])"
  by (simp add: shhs_prologue_def shhs_inputs_def offline_args_fields shhs_subjects_loaded
        shhs_env_def shhs_subjects_def)

lemma shhs_annotation_heartbeats:
  "shhs_heartbeats d (shhs_env (offline_args ''annotation'' None)) hb shhs_world
     ''shhs1/shhs1-200001''
     = (Ok (Some (Vector [5, 2, 3])), shhs_world)"
  by (simp add: shhs_heartbeats_def ensure_rpoints_def shhs_env_fields offline_args_fields
        shhs_world_files shhs_files_lookup np_loadtxt_def)

lemma sample_detector_example: "sample_detector [0, 1, 0, 1, 1] fs = [1, 3, 4]"
  by (simp add: sample_detector_def)

lemma shhs_ecg_heartbeats:
  "ecg_heartbeats sample_detector ''ECG'' (shhs_env (offline_args ''ecg'' None)) shhs_world
     ''shhs1/shhs1-200001''
     = (Ok (Some (Vector [1 / 2, 3 / 2, 2])), shhs_cached_world)"
  by (simp add: ecg_heartbeats_def Let_def shhs_env_fields mesa_env_fields shhs_world_files
        shhs_files_lookup read_edf_signal_def sample_detector_example shhs_cached_world_def)

lemma shhs_fetch:
  "files w (xml_filename_of ''shhs1/shhs1-200001'') = Some (XmlFile scenario1) \<Longrightarrow>
     fetch_and_parse (shhs_env (offline_args hs None)) w ''shhs1/shhs1-200001''
       = (Inr scenario1_parsed_result, w)"
  using fetch_and_parse_offline [of "shhs_env (offline_args hs None)" w
      "''shhs1/shhs1-200001''" scenario1] scenario1_parsed
  by (simp add: shhs_env_fields mesa_env_fields scenario1_parsed_result_def)

lemma shhs_make_record:
  "make_record (shhs_env a) scenario1_parsed_result ''shhs1-200001'' (Some t) None
     = Ok (shhs_record_200001 t)"
  by (simp add: make_record_def shhs_env_fields shhs_subjects_def scenario1_parsed_result_def
        shhs_record_200001_def)

lemma shhs_record_annotation:
  "shhs_record d (shhs_env (offline_args ''annotation'' None)) hb shhs_world
     ''shhs1/shhs1-200001''
     = (Ok (shhs_record_200001 (Vector [5, 2, 3])), Some (Vector [5, 2, 3]), shhs_world)"
  by (simp add: shhs_record_def shhs_annotation_heartbeats shhs_fetch shhs_world_files
        shhs_files_lookup shhs_make_record)

lemma shhs_record_ecg:
  "shhs_record sample_detector (shhs_env (offline_args ''ecg'' None)) hb shhs_world
     ''shhs1/shhs1-200001''
     = (Ok (shhs_record_200001 (Vector [1 / 2, 3 / 2, 2])), Some (Vector [1 / 2, 3 / 2, 2]),
        shhs_cached_world)"
  by (simp add: shhs_record_def shhs_heartbeats_def shhs_env_fields offline_args_fields
        shhs_ecg_heartbeats shhs_fetch shhs_cached_world_files shhs_make_record)

lemma shhs_record_cached:
  "shhs_record d (shhs_env (offline_args ''cached'' None)) None shhs_cached_world
     ''shhs1/shhs1-200001''
     = (Raise UnboundLocalError, None, shhs_cached_world)"
  by (simp add: shhs_record_def shhs_heartbeats_def shhs_env_fields offline_args_fields
        shhs_fetch shhs_cached_world_files make_record_def)

lemma mesa_record_ecg_times:
  assumes "heartbeats_source (env_args env) = ''ecg''"
    and "mesa_record d env hb w r = (Ok rec, hb', w')"
  shows "\<exists>data fs. heartbeat_times rec = Vector (map (\<lambda>i. real i / fs) (d data fs))"
proof -
  from mesa_record_yield_parts [OF assms(2)] obtain hb1 w1 px act where
    h: "mesa_heartbeats d env hb w r = (Ok hb1, w1)" and
    m: "make_record env px r hb1 act = Ok rec"
    by blast
  from h assms(1) have "ecg_heartbeats d ''EKG'' env w r = (Ok hb1, w1)"
    by (simp add: mesa_heartbeats_def)
  from ecg_heartbeats_times [OF this] make_record_heartbeats [OF m] show ?thesis by auto
qed

lemma shhs_record_ecg_times:
  assumes "heartbeats_source (env_args env) = ''ecg''"
    and "shhs_record d env hb w r = (Ok rec, hb', w')"
  shows "\<exists>data fs. heartbeat_times rec = Vector (map (\<lambda>i. real i / fs) (d data fs))"
proof -
  from shhs_record_yield_parts [OF assms(2)] obtain hb1 w1 px where
    h: "shhs_heartbeats d env hb w r = (Ok hb1, w1)" and
    m: "make_record env px (drop 6 r) hb1 None = Ok rec"
    by blast
  from h assms(1) have "ecg_heartbeats d ''ECG'' env w r = (Ok hb1, w1)"
    by (simp add: shhs_heartbeats_def)
  from ecg_heartbeats_times [OF this] make_record_heartbeats [OF m] show ?thesis by auto
qed

lemma ecg_times_nondecreasing:
  "heartbeat_times rec = Vector (map (\<lambda>i. real i / fs) xs) \<Longrightarrow> sorted xs \<Longrightarrow> 0 < fs \<Longrightarrow>
     nondecreasing (heartbeat_times rec)"
  by (simp add: nondecreasing_def sorted_divide)

lemma mesa_record_annotation_sorted:
  assumes "heartbeats_source (env_args env) = ''annotation''"
    and "mesa_record d env hb w r = (Ok rec, hb', w')"
  shows "nondecreasing (heartbeat_times rec)"
proof -
  from mesa_record_yield_parts [OF assms(2)] obtain hb1 w1 px act where
    h: "mesa_heartbeats d env hb w r = (Ok hb1, w1)" and
    m: "make_record env px r hb1 act = Ok rec"
    by blast
  from mesa_annotation_sorted [OF assms(1) h] make_record_heartbeats [OF m]
  show ?thesis by (auto simp add: nondecreasing_def)
qed

lemma shhs_record_annotation_as_loaded:
  assumes "heartbeats_source (env_args env) = ''annotation''"
    and "files w (rpoints_filename_of r) = Some (RpointsCsv a)"
    and "shhs_record d env hb w r = (Ok rec, hb', w')"
  shows "heartbeat_times rec = a"
proof -
  from shhs_record_yield_parts [OF assms(3)] obtain hb1 w1 px where
    h: "shhs_heartbeats d env hb w r = (Ok hb1, w1)" and
    m: "make_record env px (drop 6 r) hb1 None = Ok rec"
    by blast
  from shhs_annotation_as_loaded [OF assms(1,2) h] make_record_heartbeats [OF m]
  show ?thesis by simp
qed

lemma mesa_record_cached_as_stored:
  assumes "heartbeats_source (env_args env) = ''cached''"
    and "mesa_record d env hb w r = (Ok rec, hb', w')"
  shows "files w (heartbeats_file_of r) = Some (NpyFile (heartbeat_times rec))"
proof -
  from mesa_record_yield_parts [OF assms(2)] obtain hb1 w1 px act where
    h: "mesa_heartbeats d env hb w r = (Ok hb1, w1)" and
    m: "make_record env px r hb1 act = Ok rec"
    by blast
  from mesa_cached_as_stored [OF assms(1) h] make_record_heartbeats [OF m]
  show ?thesis by auto
qed

text \<open>
  C2, as the code has it. A record that \<open>read_mesa\<close> yields in \<open>annotation\<close> mode has
  non-decreasing heartbeat times, whatever the order of the sidecar. In \<open>ecg\<close> mode both
  readers yield the detector's sample indices divided by the sampling frequency, which
  are non-decreasing when the indices are and the frequency is positive. \<open>read_shhs\<close> in
  \<open>annotation\<close> mode yields the sidecar's array as loaded, and \<open>read_mesa\<close> in \<open>cached\<close> mode
  the array as stored.
\<close>

theorem heartbeat_times_order:
  "(heartbeats_source (env_args env) = ''annotation''
      \<and> mesa_record d env hb w r = (Ok rec, hb', w') \<longrightarrow>
      nondecreasing (heartbeat_times rec))
   \<and> (heartbeats_source (env_args env) = ''ecg''
      \<and> (mesa_record d env hb w r = (Ok rec, hb', w')
          \<or> shhs_record d env hb w r = (Ok rec, hb', w')) \<longrightarrow>
      (\<exists>data fs. heartbeat_times rec = Vector (map (\<lambda>i. real i / fs) (d data fs))
         \<and> (sorted (d data fs) \<and> 0 < fs \<longrightarrow> nondecreasing (heartbeat_times rec))))
   \<and> (heartbeats_source (env_args env) = ''annotation''
      \<and> files w (rpoints_filename_of r) = Some (RpointsCsv a)
      \<and> shhs_record d env hb w r = (Ok rec, hb', w') \<longrightarrow>
      heartbeat_times rec = a)
   \<and> (heartbeats_source (env_args env) = ''cached''
      \<and> mesa_record d env hb w r = (Ok rec, hb', w') \<longrightarrow>
      files w (heartbeats_file_of r) = Some (NpyFile (heartbeat_times rec)))"
proof (intro conjI impI)
  assume "heartbeats_source (env_args env) = ''annotation''
      \<and> mesa_record d env hb w r = (Ok rec, hb', w')"
  then show "nondecreasing (heartbeat_times rec)"
    using mesa_record_annotation_sorted by blast
next
  assume h: "heartbeats_source (env_args env) = ''ecg''
      \<and> (mesa_record d env hb w r = (Ok rec, hb', w')
          \<or> shhs_record d env hb w r = (Ok rec, hb', w'))"
  then have "\<exists>data fs. heartbeat_times rec = Vector (map (\<lambda>i. real i / fs) (d data fs))"
    using mesa_record_ecg_times [of env d hb w r rec hb' w']
      shhs_record_ecg_times [of env d hb w r rec hb' w'] by blast
  then obtain data fs where
    t: "heartbeat_times rec = Vector (map (\<lambda>i. real i / fs) (d data fs))" by blast
  from ecg_times_nondecreasing [OF t]
  have "sorted (d data fs) \<and> 0 < fs \<longrightarrow> nondecreasing (heartbeat_times rec)" by blast
  with t show "\<exists>data fs. heartbeat_times rec = Vector (map (\<lambda>i. real i / fs) (d data fs))
         \<and> (sorted (d data fs) \<and> 0 < fs \<longrightarrow> nondecreasing (heartbeat_times rec))"
    by blast
next
  assume "heartbeats_source (env_args env) = ''annotation''
      \<and> files w (rpoints_filename_of r) = Some (RpointsCsv a)
      \<and> shhs_record d env hb w r = (Ok rec, hb', w')"
  then show "heartbeat_times rec = a"
    using shhs_record_annotation_as_loaded by blast
next
  assume "heartbeats_source (env_args env) = ''cached''
      \<and> mesa_record d env hb w r = (Ok rec, hb', w')"
  then show "files w (heartbeats_file_of r) = Some (NpyFile (heartbeat_times rec))"
    using mesa_record_cached_as_stored by blast
qed

lemma example_record_fields:
  "heartbeat_times (mesa_record_0002 t) = t" "heartbeat_times (shhs_record_200001 t) = t"
  by (simp_all add: mesa_record_0002_def shhs_record_200001_def)

theorem heartbeat_times_order_witness:
  "mesa_record sample_detector (mesa_env (offline_args ''annotation'' None)) None mesa_world
     ''mesa-sleep-0002''
     = (Ok (mesa_record_0002 (Vector [2, 3, 5])), Some (Vector [2, 3, 5]), mesa_world)
   \<and> files mesa_world (rpoints_filename_of ''mesa-sleep-0002'')
     = Some (RpointsCsv (Vector [5, 2, 3]))
   \<and> nondecreasing (Vector [2, 3, 5])
   \<and> shhs_record sample_detector (shhs_env (offline_args ''ecg'' None)) None shhs_world
     ''shhs1/shhs1-200001''
     = (Ok (shhs_record_200001 (Vector [1 / 2, 3 / 2, 2])), Some (Vector [1 / 2, 3 / 2, 2]),
        shhs_cached_world)
   \<and> nondecreasing (Vector [1 / 2, 3 / 2, 2])"
proof -
  let ?m = "mesa_env (offline_args ''annotation'' None)"
  have m: "heartbeats_source (env_args ?m) = ''annotation''
      \<and> mesa_record sample_detector ?m None mesa_world ''mesa-sleep-0002''
          = (Ok (mesa_record_0002 (Vector [2, 3, 5])), Some (Vector [2, 3, 5]), mesa_world)"
    by (simp add: mesa_env_fields mesa_record_0002_annotation)
  have "nondecreasing (heartbeat_times (mesa_record_0002 (Vector [2, 3, 5])))"
    using heartbeat_times_order [of ?m sample_detector None mesa_world "''mesa-sleep-0002''"
        "mesa_record_0002 (Vector [2, 3, 5])" "Some (Vector [2, 3, 5])" mesa_world] m
    by blast
  then have 1: "nondecreasing (Vector [2, 3, 5])"
    by (simp add: example_record_fields)
  have 2: "nondecreasing (Vector [1 / 2, 3 / 2, 2])"
    by (simp add: nondecreasing_def)
  from m 1 2 show ?thesis
    by (simp add: mesa_world_files mesa_files_lookup shhs_record_ecg)
qed

text \<open>
  The claim as stated fails: \<open>read_shhs\<close> in \<open>annotation\<close> mode yields the times of an
  unordered sidecar unordered, and \<open>read_mesa\<close> in \<open>cached\<close> mode yields an unordered cached
  array unordered.
\<close>

theorem unsorted_heartbeat_times_yielded:
  "fst (shhs_next sample_detector (Created (offline_args ''annotation'' None) shhs_inputs)
          shhs_world)
     = Inr (shhs_record_200001 (Vector [5, 2, 3]))
   \<and> \<not> nondecreasing (heartbeat_times (shhs_record_200001 (Vector [5, 2, 3])))
   \<and> fst (mesa_next sample_detector
          (Created (offline_args ''cached'' None) (mesa_inputs [''mesa-sleep-0002'']))
          mesa_world)
     = Inr (mesa_record_0002 (Vector [4, 1]))
   \<and> \<not> nondecreasing (heartbeat_times (mesa_record_0002 (Vector [4, 1])))"
  by (simp add: shhs_next_def mesa_next_def gen_next_def shhs_prologue_example
        mesa_prologue_example shhs_record_annotation mesa_record_0002_cached
        example_record_fields nondecreasing_def)

section \<open>The heartbeat cache\<close>

lemma ecg_heartbeats_cached:
  "ecg_heartbeats d label env w r = (Ok (Some t), w1) \<Longrightarrow>
     files w1 (heartbeats_file_of r) = Some (NpyFile t)"
  using edf_path_distinct(1) [of r r]
  by (auto simp add: ecg_heartbeats_def Let_def unlink_def np_save_def
        split: sum.splits if_splits prod.splits option.splits)

lemma mesa_cached_reads_stored:
  "heartbeats_source (env_args env) = ''cached'' \<Longrightarrow>
   files w (heartbeats_file_of r) = Some (NpyFile t) \<Longrightarrow>
     mesa_heartbeats d env hb w r = (Ok (Some t), w)"
  by (simp add: mesa_heartbeats_def np_load_def)

lemma shhs_cached_keeps_binding:
  "heartbeats_source (env_args env) = ''cached'' \<Longrightarrow>
   shhs_heartbeats d env hb w r = (Ok t, w1) \<Longrightarrow> t = hb"
  by (auto simp add: shhs_heartbeats_def split: if_splits)

lemma shhs_cached_record_never_yields:
  assumes "heartbeats_source (env_args env) = ''cached''"
  shows "fst (shhs_record d env None w r) \<noteq> Ok rec
         \<and> fst (snd (shhs_record d env None w r)) = None"
proof -
  obtain s w1 where h: "shhs_heartbeats d env None w r = (s, w1)" by force
  show ?thesis
  proof (cases s)
    case (Ok t)
    with shhs_cached_keeps_binding [OF assms] h have "t = None" by simp
    with h Ok show ?thesis
      by (auto simp add: shhs_record_def make_record_def split: prod.splits sum.splits)
  next
    case (Skip x)
    with h show ?thesis by (simp add: shhs_record_def)
  next
    case (Raise e)
    with h show ?thesis by (simp add: shhs_record_def)
  qed
qed

lemma shhs_cached_run_never_yields:
  "heartbeats_source (env_args env) = ''cached'' \<Longrightarrow>
     isl (fst (run_records (shhs_record d) env rs None w))"
proof (induction rs arbitrary: w)
  case Nil
  then show ?case by simp
next
  case (Cons r rs)
  obtain s hb' w' where b: "shhs_record d env None w r = (s, hb', w')"
    by (cases "shhs_record d env None w r") auto
  from shhs_cached_record_never_yields [OF Cons.prems, of d w r] b
  have n: "hb' = None" and y: "\<And>rec. s \<noteq> Ok rec" by auto
  show ?case
  proof (cases s)
    case (Ok rec)
    with y [of rec] show ?thesis by simp
  next
    case (Skip x)
    with b n Cons.IH [OF Cons.prems, of w'] show ?thesis by simp
  next
    case (Raise e)
    with b show ?thesis by simp
  qed
qed

text \<open>
  C4. After a pass of \<open>read_shhs\<close> in \<open>ecg\<close> mode has stored the detected times in the
  record's \<open>.npy\<close> file, a pass in \<open>cached\<close> mode over the same directory does not yield
  them: the branch of lines 780 to 783 never loads the file, \<open>heartbeat_times\<close> is unbound
  at the \<open>yield\<close>, and the first \<open>next()\<close> raises.
\<close>

theorem shhs_cached_mode_does_not_load:
  "shhs_next sample_detector (Created (offline_args ''ecg'' None) shhs_inputs) shhs_world
     = (Inr (shhs_record_200001 (Vector [1 / 2, 3 / 2, 2])),
        Suspended (shhs_env (offline_args ''ecg'' None)) [] (Some (Vector [1 / 2, 3 / 2, 2])),
        shhs_cached_world)
   \<and> files shhs_cached_world (heartbeats_file_of ''shhs1/shhs1-200001'')
     = Some (NpyFile (Vector [1 / 2, 3 / 2, 2]))
   \<and> shhs_next sample_detector (Created (offline_args ''cached'' None) shhs_inputs)
       shhs_cached_world
     = (Inl UnboundLocalError, Finished, shhs_cached_world)"
  by (simp add: shhs_next_def gen_next_def shhs_prologue_example shhs_record_ecg
        shhs_record_cached shhs_cached_world_files)

section \<open>Deletion of the raw recording\<close>

lemma mesa_heartbeats_edf_deleted_iff:
  "heartbeats_source (env_args env) = ''ecg'' \<Longrightarrow>
   mesa_heartbeats d env hb w r = (Ok t, w1) \<Longrightarrow>
     (files w1 (edf_filename_of r) = None)
       = (files w (edf_filename_of r) = None \<and> \<not> keep_edfs (env_args env))"
  using ecg_edf_deleted_iff [of d "''EKG''" env w r t w1] by (simp add: mesa_heartbeats_def)

lemma shhs_heartbeats_edf_deleted_iff:
  "heartbeats_source (env_args env) = ''ecg'' \<Longrightarrow>
   shhs_heartbeats d env hb w r = (Ok t, w1) \<Longrightarrow>
     (files w1 (edf_filename_of r) = None)
       = (files w (edf_filename_of r) = None \<and> \<not> keep_edfs (env_args env))"
  using ecg_edf_deleted_iff [of d "''ECG''" env w r t w1] by (simp add: shhs_heartbeats_def)

text \<open>
  C10. No pass through the loop body of either reader removes a file that was there
  before the pass, whatever \<open>keep_edfs\<close> says. In \<open>ecg\<close> mode, after the heartbeat detection
  of a record (and still when the record is yielded) its \<open>.edf\<close> file is absent exactly
  when it was absent before the pass and \<open>keep_edfs\<close> is false.
\<close>

theorem edf_deleted_only_when_fetched:
  "(files w p \<noteq> None \<longrightarrow>
      files (snd (snd (mesa_record d env hb w r))) p \<noteq> None
      \<and> files (snd (snd (shhs_record d env hb w r))) p \<noteq> None)
   \<and> (heartbeats_source (env_args env) = ''ecg''
      \<and> (mesa_heartbeats d env hb w r = (Ok t, w1)
          \<or> shhs_heartbeats d env hb w r = (Ok t, w1)) \<longrightarrow>
      (files w1 (edf_filename_of r) = None)
        = (files w (edf_filename_of r) = None \<and> \<not> keep_edfs (env_args env)))
   \<and> (heartbeats_source (env_args env) = ''ecg''
      \<and> (mesa_record d env hb w r = (Ok rec, hb', w')
          \<or> shhs_record d env hb w r = (Ok rec, hb', w')) \<longrightarrow>
      (files w' (edf_filename_of r) = None)
        = (files w (edf_filename_of r) = None \<and> \<not> keep_edfs (env_args env)))"
proof (intro conjI impI)
  assume p: "files w p \<noteq> None"
  then show "files (snd (snd (mesa_record d env hb w r))) p \<noteq> None"
    by (rule mesa_record_keeps_files)
  from p show "files (snd (snd (shhs_record d env hb w r))) p \<noteq> None"
    by (rule shhs_record_keeps_files)
next
  assume "heartbeats_source (env_args env) = ''ecg''
      \<and> (mesa_heartbeats d env hb w r = (Ok t, w1)
          \<or> shhs_heartbeats d env hb w r = (Ok t, w1))"
  then show "(files w1 (edf_filename_of r) = None)
        = (files w (edf_filename_of r) = None \<and> \<not> keep_edfs (env_args env))"
    using mesa_heartbeats_edf_deleted_iff [of env d hb w r t w1]
      shhs_heartbeats_edf_deleted_iff [of env d hb w r t w1] by blast
next
  assume "heartbeats_source (env_args env) = ''ecg''
      \<and> (mesa_record d env hb w r = (Ok rec, hb', w')
          \<or> shhs_record d env hb w r = (Ok rec, hb', w'))"
  then show "(files w' (edf_filename_of r) = None)
        = (files w (edf_filename_of r) = None \<and> \<not> keep_edfs (env_args env))"
    using mesa_record_edf_deleted_iff [of env d hb w r rec hb' w']
      shhs_record_edf_deleted_iff [of env d hb w r rec hb' w'] by blast
qed

lemma online_env_fields:
  "heartbeats_source (env_args online_env) = ''ecg''" "\<not> offline (env_args online_env)"
  "\<not> keep_edfs (env_args online_env)"
  "env_checksums online_env
     = [xml_filename_of ''shhs1/shhs1-200001'', edf_filename_of ''shhs1/shhs1-200001'']"
  "env_subject_data online_env = shhs_subjects"
  by (simp_all add: online_env_def)

lemma online_world_fields:
  "files online_world p = None" "remote online_world = shhs_files"
  by (simp_all add: online_world_def)

lemma online_ecg_heartbeats:
  "fst (ecg_heartbeats sample_detector ''ECG'' online_env online_world ''shhs1/shhs1-200001'')
     = Ok (Some (Vector [1 / 2, 3 / 2, 2]))"
  by (simp add: ecg_heartbeats_def Let_def online_env_fields online_world_fields
        download_listed_def download_nsrr_file_def shhs_files_lookup read_edf_signal_def
        sample_detector_example np_save_def unlink_def edf_path_distinct)

lemma online_ecg_world:
  "remote (snd (ecg_heartbeats sample_detector ''ECG'' online_env online_world
     ''shhs1/shhs1-200001'')) = shhs_files"
  by (simp add: ecg_heartbeats_def Let_def online_env_fields online_world_fields
        download_listed_def download_nsrr_file_def shhs_files_lookup read_edf_signal_def
        sample_detector_example np_save_def unlink_def edf_path_distinct)

lemma online_fetch:
  "remote w = shhs_files \<Longrightarrow>
     fst (fetch_and_parse online_env w ''shhs1/shhs1-200001'') = Inr scenario1_parsed_result"
  using scenario1_parsed
  by (simp add: fetch_and_parse_def online_env_fields download_listed_def
        download_nsrr_file_def shhs_files_lookup ElementTree_parse_def
        scenario1_parsed_result_def)

lemma online_record:
  "fst (shhs_record sample_detector online_env None online_world ''shhs1/shhs1-200001'')
     = Ok (shhs_record_200001 (Vector [1 / 2, 3 / 2, 2]))"
proof -
  obtain s1 w1 where
    h: "ecg_heartbeats sample_detector ''ECG'' online_env online_world ''shhs1/shhs1-200001''
          = (s1, w1)" by force
  with online_ecg_heartbeats online_ecg_world have
    s1: "s1 = Ok (Some (Vector [1 / 2, 3 / 2, 2]))" and r1: "remote w1 = shhs_files" by simp_all
  obtain s2 w2 where f: "fetch_and_parse online_env w1 ''shhs1/shhs1-200001'' = (s2, w2)" by force
  with online_fetch [OF r1] have s2: "s2 = Inr scenario1_parsed_result" by simp
  from h s1 f s2 show ?thesis
    by (simp add: shhs_record_def shhs_heartbeats_def online_env_fields make_record_def
          shhs_subjects_def scenario1_parsed_result_def shhs_record_200001_def)
qed

theorem edf_deleted_only_when_fetched_witness:
  "files online_world (edf_filename_of ''shhs1/shhs1-200001'') = None
   \<and> \<not> keep_edfs (env_args online_env)
   \<and> fst (shhs_record sample_detector online_env None online_world ''shhs1/shhs1-200001'')
     = Ok (shhs_record_200001 (Vector [1 / 2, 3 / 2, 2]))
   \<and> files (snd (snd (shhs_record sample_detector online_env None online_world
        ''shhs1/shhs1-200001''))) (edf_filename_of ''shhs1/shhs1-200001'') = None
   \<and> files shhs_world (edf_filename_of ''shhs1/shhs1-200001'') \<noteq> None
   \<and> \<not> keep_edfs (env_args (shhs_env (offline_args ''ecg'' None)))
   \<and> files (snd (snd (shhs_record sample_detector (shhs_env (offline_args ''ecg'' None)) None
        shhs_world ''shhs1/shhs1-200001''))) (edf_filename_of ''shhs1/shhs1-200001'') \<noteq> None"
proof -
  let ?r = "''shhs1/shhs1-200001''"
  let ?x = "shhs_record sample_detector online_env None online_world ?r"
  have y: "?x = (Ok (shhs_record_200001 (Vector [1 / 2, 3 / 2, 2])), fst (snd ?x), snd (snd ?x))"
    using online_record by (simp add: prod_eq_iff)
  have 1: "files (snd (snd ?x)) (edf_filename_of ?r) = None"
    using edf_deleted_only_when_fetched [of online_world _ sample_detector online_env None ?r
        _ _ "shhs_record_200001 (Vector [1 / 2, 3 / 2, 2])" "fst (snd ?x)" "snd (snd ?x)"]
      y online_env_fields(1,3) online_world_fields(1) [of "edf_filename_of ?r"]
    by blast
  have p: "files shhs_world (edf_filename_of ?r) \<noteq> None"
    by (simp add: shhs_world_files shhs_files_lookup)
  have 2: "files (snd (snd (shhs_record sample_detector (shhs_env (offline_args ''ecg'' None))
        None shhs_world ?r))) (edf_filename_of ?r) \<noteq> None"
    using edf_deleted_only_when_fetched [of shhs_world "edf_filename_of ?r" sample_detector
        "shhs_env (offline_args ''ecg'' None)" None ?r] p
    by blast
  from 1 2 p online_record show ?thesis
    by (simp add: online_env_fields online_world_fields shhs_env_fields mesa_env_fields)
qed

end
